theory Spec2Isabelle
  imports Complex_Main "HOL-Library.Log_Nat"
begin

section \<open>The plot layout of Qwt (qwt\_plot\_layout.cpp)\<close>

text \<open>
  A shallow embedding of \<^verbatim>\<open>src/src/qwt_plot_layout.cpp\<close>. C++ \<^verbatim>\<open>int\<close> is
  modelled as \<^typ>\<open>int\<close>: the overflow of sums and differences of \<^verbatim>\<open>int\<close> is outside
  the model. The coordinates of the rectangles (\<^verbatim>\<open>qreal\<close>) are modelled as \<^typ>\<open>real\<close>:
  they are finite, and their sums and differences are exact. The legend ratio, the one
  \<^verbatim>\<open>double\<close> that the callers of the layout set, is a value of the type \<open>double\<close>
  below, which has NaN and the two infinities; its product with a rect span is rounded as
  IEEE 754 binary64 arithmetic rounds it, and the conversion of the product to \<^verbatim>\<open>int\<close>
  is a fault where C++ leaves it undefined. The widgets of the plot (title, footer,
  legend, scale widgets, canvas) are records of the values and measuring functions the
  layout asks them for.
\<close>

subsection \<open>Numeric helpers of Qt\<close>

text \<open>The conversion \<^verbatim>\<open>int( d )\<close> of C++ truncates towards zero.\<close>

definition trunc :: "real \<Rightarrow> int" where
  "trunc d = (if 0 \<le> d then \<lfloor>d\<rfloor> else \<lceil>d\<rceil>)"

definition qFloor :: "real \<Rightarrow> int" where
  "qFloor d = \<lfloor>d\<rfloor>"

definition qCeil :: "real \<Rightarrow> int" where
  "qCeil d = \<lceil>d\<rceil>"

text \<open>\<^verbatim>\<open>qRound\<close> as qglobal.h of Qt 4 and Qt 5 has it.\<close>

definition qRound :: "real \<Rightarrow> int" where
  "qRound d = (if 0 \<le> d then trunc (d + 1/2)
     else trunc (d - real_of_int (trunc (d - 1)) + 1/2) + trunc (d - 1))"

subsection \<open>Faults\<close>

text \<open>
  Reading through a null widget pointer, indexing a \<^verbatim>\<open>QVector\<close> out of its range
  and converting a \<^verbatim>\<open>double\<close> that is NaN, infinite or outside the range of \<^verbatim>\<open>int\<close>
  to \<^verbatim>\<open>int\<close> are undefined in C++; the model returns them as faults.
\<close>

datatype fault = NullPointer | IndexOutOfRange | IntConversion

definition bindF :: "fault + 'a \<Rightarrow> ('a \<Rightarrow> fault + 'b) \<Rightarrow> fault + 'b" where
  "bindF m f = (case m of Inl e \<Rightarrow> Inl e | Inr x \<Rightarrow> f x)"

fun foldF :: "('a \<Rightarrow> 's \<Rightarrow> fault + 's) \<Rightarrow> 'a list \<Rightarrow> 's \<Rightarrow> fault + 's" where
  "foldF f [] s = Inr s"
| "foldF f (x # xs) s = (case f x s of Inl e \<Rightarrow> Inl e | Inr s' \<Rightarrow> foldF f xs s')"

definition atF :: "'a list \<Rightarrow> nat \<Rightarrow> fault + 'a" where
  "atF xs i = (if i < length xs then Inr (xs ! i) else Inl IndexOutOfRange)"

subsection \<open>Doubles\<close>

text \<open>
  A \<^verbatim>\<open>double\<close> is a finite number, an infinity or NaN. The finite doubles are the
  numbers \<open>m * 2 ^ e\<close> with \<open>\<bar>m\<bar> < 2 ^ 53\<close> and \<open>- 1074 \<le> e \<le> 971\<close>; the model does not
  tell the two zeros apart.
\<close>

datatype double = Finite real | PosInf | NegInf | NaN

text \<open>
  A comparison with NaN is false. The layout compares a \<^verbatim>\<open>double\<close> with the literals
  \<^verbatim>\<open>1.0\<close> and \<^verbatim>\<open>0.0\<close> only: \<open>gtDouble d c\<close> is \<^verbatim>\<open>d > c\<close> and \<open>leDouble d c\<close> is
  \<^verbatim>\<open>d <= c\<close>.
\<close>

fun gtDouble :: "double \<Rightarrow> real \<Rightarrow> bool" where
  "gtDouble (Finite x) c = (c < x)"
| "gtDouble PosInf c = True"
| "gtDouble NegInf c = False"
| "gtDouble NaN c = False"

fun leDouble :: "double \<Rightarrow> real \<Rightarrow> bool" where
  "leDouble (Finite x) c = (x \<le> c)"
| "leDouble PosInf c = False"
| "leDouble NegInf c = True"
| "leDouble NaN c = False"

text \<open>Rounding to the nearest integer, a tie to the even one.\<close>

definition roundHalfEven :: "real \<Rightarrow> int" where
  "roundHalfEven x =
     (if x - real_of_int \<lfloor>x\<rfloor> < 1 / 2 then \<lfloor>x\<rfloor>
      else if 1 / 2 < x - real_of_int \<lfloor>x\<rfloor> then \<lfloor>x\<rfloor> + 1
      else if even \<lfloor>x\<rfloor> then \<lfloor>x\<rfloor> else \<lfloor>x\<rfloor> + 1)"

text \<open>The exponent \<open>e\<close> with \<open>2 ^ e \<le> a < 2 ^ (e + 1)\<close> of a positive number.\<close>

definition binade :: "real \<Rightarrow> int" where
  "binade a = (if 1 \<le> a then bitlen \<lfloor>a\<rfloor> - 1 else - bitlen (\<lceil>1 / a\<rceil> - 1))"

definition pow2 :: "int \<Rightarrow> real" where
  "pow2 e = (if 0 \<le> e then 2 ^ nat e else 1 / 2 ^ nat (- e))"

text \<open>
  The distance of neighbouring doubles around a positive number: 52 binary digits below
  its leading one, and \<open>2 ^ - 1074\<close> in the subnormal range.
\<close>

definition quantum :: "real \<Rightarrow> real" where
  "quantum a = pow2 (max (binade a) (- 1022) - 52)"

definition roundTo :: "real \<Rightarrow> real \<Rightarrow> real" where
  "roundTo q a = real_of_int (roundHalfEven (a / q)) * q"

definition fromMagnitude :: "bool \<Rightarrow> real \<Rightarrow> double" where
  "fromMagnitude neg v =
     (if pow2 1024 \<le> v then (if neg then NegInf else PosInf)
      else Finite (if neg then - v else v))"

text \<open>
  The double that a real number is rounded to in the rounding mode the program runs in,
  round to nearest with ties to even; a result of \<open>2 ^ 1024\<close> or more is an infinity.
\<close>

definition roundDouble :: "real \<Rightarrow> double" where
  "roundDouble x =
     (if x = 0 then Finite 0
      else fromMagnitude (x < 0) (roundTo (quantum \<bar>x\<bar>) \<bar>x\<bar>))"

text \<open>
  The product \<^verbatim>\<open>span * ratio\<close> of a finite rect span and a \<^verbatim>\<open>double\<close>: the exact
  product rounded to a double, as arithmetic that evaluates every operation in
  \<^verbatim>\<open>double\<close> (SSE2) does; zero times an infinity is NaN.
\<close>

fun mulDouble :: "real \<Rightarrow> double \<Rightarrow> double" where
  "mulDouble a (Finite b) = roundDouble (a * b)"
| "mulDouble a PosInf = (if a = 0 then NaN else if 0 < a then PosInf else NegInf)"
| "mulDouble a NegInf = (if a = 0 then NaN else if 0 < a then NegInf else PosInf)"
| "mulDouble a NaN = NaN"

text \<open>
  The conversion \<^verbatim>\<open>int( d )\<close> of a \<^verbatim>\<open>double\<close>: it truncates, and is undefined when the
  truncated value is not an \<^verbatim>\<open>int\<close> of 32 bits.
\<close>

fun toInt :: "double \<Rightarrow> fault + int" where
  "toInt (Finite x) =
     (if - 2147483648 \<le> trunc x \<and> trunc x \<le> 2147483647 then Inr (trunc x)
      else Inl IntConversion)"
| "toInt PosInf = Inl IntConversion"
| "toInt NegInf = Inl IntConversion"
| "toInt NaN = Inl IntConversion"

subsection \<open>Rectangles and sizes of Qt\<close>

record QSize =
  wd :: int
  ht :: int

text \<open>\<^verbatim>\<open>QRectF\<close> stores a corner and a size; the default constructed one is all zero.\<close>

record QRectF =
  xp :: real
  yp :: real
  rw :: real
  rh :: real

definition QRectF0 :: QRectF where
  "QRectF0 = \<lparr>xp = 0, yp = 0, rw = 0, rh = 0\<rparr>"

definition left :: "QRectF \<Rightarrow> real" where "left r = xp r"
definition top :: "QRectF \<Rightarrow> real" where "top r = yp r"
definition right :: "QRectF \<Rightarrow> real" where "right r = xp r + rw r"
definition bottom :: "QRectF \<Rightarrow> real" where "bottom r = yp r + rh r"
definition width :: "QRectF \<Rightarrow> real" where "width r = rw r"
definition height :: "QRectF \<Rightarrow> real" where "height r = rh r"

definition setLeft :: "real \<Rightarrow> QRectF \<Rightarrow> QRectF" where
  "setLeft pos r = (let diff = pos - xp r in r\<lparr>xp := xp r + diff, rw := rw r - diff\<rparr>)"

definition setRight :: "real \<Rightarrow> QRectF \<Rightarrow> QRectF" where
  "setRight pos r = r\<lparr>rw := pos - xp r\<rparr>"

definition setTop :: "real \<Rightarrow> QRectF \<Rightarrow> QRectF" where
  "setTop pos r = (let diff = pos - yp r in r\<lparr>yp := yp r + diff, rh := rh r - diff\<rparr>)"

definition setBottom :: "real \<Rightarrow> QRectF \<Rightarrow> QRectF" where
  "setBottom pos r = r\<lparr>rh := pos - yp r\<rparr>"

definition setX :: "real \<Rightarrow> QRectF \<Rightarrow> QRectF" where
  "setX pos r = setLeft pos r"

definition setY :: "real \<Rightarrow> QRectF \<Rightarrow> QRectF" where
  "setY pos r = setTop pos r"

definition setWidth :: "real \<Rightarrow> QRectF \<Rightarrow> QRectF" where
  "setWidth v r = r\<lparr>rw := v\<rparr>"

definition setHeight :: "real \<Rightarrow> QRectF \<Rightarrow> QRectF" where
  "setHeight v r = r\<lparr>rh := v\<rparr>"

definition isValid :: "QRectF \<Rightarrow> bool" where
  "isValid r = (0 < rw r \<and> 0 < rh r)"

definition isEmpty :: "QRectF \<Rightarrow> bool" where
  "isEmpty r = (rw r \<le> 0 \<or> rh r \<le> 0)"

definition isNull :: "QRectF \<Rightarrow> bool" where
  "isNull r = (rw r = 0 \<and> rh r = 0)"

definition normalized :: "QRectF \<Rightarrow> QRectF" where
  "normalized r =
     (let r1 = (if rw r < 0 then r\<lparr>xp := xp r + rw r, rw := - rw r\<rparr> else r)
      in if rh r1 < 0 then r1\<lparr>yp := yp r1 + rh r1, rh := - rh r1\<rparr> else r1)"

text \<open>\<^verbatim>\<open>QRect\<close> has integer corners, both inclusive; the default one is (0, 0, -1, -1).\<close>

record QRect =
  x1 :: int
  y1 :: int
  x2 :: int
  y2 :: int

text \<open>The conversions between the two kinds of rectangles, as qrect.h of Qt 5 has them.\<close>

definition toRect :: "QRectF \<Rightarrow> QRect" where
  "toRect r = \<lparr>x1 = qRound (xp r), y1 = qRound (yp r),
     x2 = qRound (xp r + rw r) - 1, y2 = qRound (yp r + rh r) - 1\<rparr>"

definition fromRect :: "QRect \<Rightarrow> QRectF" where
  "fromRect q = \<lparr>xp = real_of_int (x1 q), yp = real_of_int (y1 q),
     rw = real_of_int (x2 q - x1 q + 1), rh = real_of_int (y2 q - y1 q + 1)\<rparr>"

definition emptyRect :: "QRect \<Rightarrow> bool" where
  "emptyRect q = (x2 q < x1 q \<or> y2 q < y1 q)"

text \<open>
  \<^verbatim>\<open>QRegion( a ).subtracted( b ).boundingRect()\<close> for two rectangles: the bounding
  box of the points of \<open>a\<close> outside \<open>b\<close>. A side of \<open>a\<close> moves only when \<open>b\<close> covers
  the whole of that side; an empty region has the default rectangle as bounding box.
\<close>

definition subtractedBoundingRect :: "QRect \<Rightarrow> QRect \<Rightarrow> QRect" where
  "subtractedBoundingRect a b =
     (if emptyRect a then \<lparr>x1 = 0, y1 = 0, x2 = -1, y2 = -1\<rparr>
      else
        let ix1 = max (x1 a) (x1 b); ix2 = min (x2 a) (x2 b);
            iy1 = max (y1 a) (y1 b); iy2 = min (y2 a) (y2 b)
        in if emptyRect b \<or> ix2 < ix1 \<or> iy2 < iy1 then a
           else
             let spansX = (ix1 = x1 a \<and> ix2 = x2 a);
                 spansY = (iy1 = y1 a \<and> iy2 = y2 a)
             in if spansX \<and> spansY then \<lparr>x1 = 0, y1 = 0, x2 = -1, y2 = -1\<rparr>
                else
                  \<lparr>x1 = (if spansY \<and> ix1 = x1 a then ix2 + 1 else x1 a),
                   y1 = (if spansX \<and> iy1 = y1 a then iy2 + 1 else y1 a),
                   x2 = (if spansY \<and> ix2 = x2 a then ix1 - 1 else x2 a),
                   y2 = (if spansX \<and> iy2 = y2 a then iy1 - 1 else y2 a)\<rparr>)"

subsection \<open>Enumerations of QwtPlot and QwtPlotLayout\<close>

text \<open>
  Modelled from the spec: the declarations of the axis positions, of \<^verbatim>\<open>QWT_DUMMY_ID\<close>,
  of the legend positions and of the layout options (the headers of QwtPlot and
  QwtPlotLayout) are missing from the sources. The spec has four axis positions (top,
  bottom, left, right), a legend position that is one of four sides and the five options
  to ignore legend, title, footer, frames and scroll bars. The source calls the positions
  yLeft, yRight, xBottom and xTop and loops over them from 0 below
  \<^verbatim>\<open>NumAxisPositions\<close>; they are enumerated here in the order of Qwt's header
  (yLeft = 0, yRight = 1, xBottom = 2, xTop = 3, four positions), and the dummy axis index
  is 0, the index of the first axis of a position.
\<close>

datatype AxisPosition = yLeft | yRight | xBottom | xTop

definition NumAxisPositions :: int where
  "NumAxisPositions = 4"

definition axisPositions :: "AxisPosition list" where
  "axisPositions = [yLeft, yRight, xBottom, xTop]"

definition toAxisPos :: "int \<Rightarrow> AxisPosition" where
  "toAxisPos n = (if n = 0 then yLeft else if n = 1 then yRight
                  else if n = 2 then xBottom else xTop)"

definition QWT_DUMMY_ID :: nat where
  "QWT_DUMMY_ID = 0"

definition qwtIsXAxis :: "AxisPosition \<Rightarrow> bool" where
  "qwtIsXAxis axisPos = (axisPos = xTop \<or> axisPos = xBottom)"

definition qwtIsYAxis :: "AxisPosition \<Rightarrow> bool" where
  "qwtIsYAxis axisPos = (axisPos = yLeft \<or> axisPos = yRight)"

datatype LegendPosition = LeftLegend | RightLegend | BottomLegend | TopLegend

text \<open>The options of a layout pass are a set of flags; \<^verbatim>\<open>options & flag\<close> is membership.\<close>

datatype LayoutOption =
  IgnoreScrollbars | IgnoreFrames | IgnoreLegend | IgnoreTitle | IgnoreFooter

type_synonym Options = "LayoutOption set"

record QwtAxisId =
  pos :: int
  idn :: int

subsection \<open>The widgets the layout measures\<close>

text \<open>
  A text knows its string and, for a font, its height for a width. The font the label
  data sets on the text is part of the measuring function.
\<close>

record QwtText =
  textString :: string
  textHeightForWidth :: "real \<Rightarrow> real"

definition QwtText0 :: QwtText where
  "QwtText0 = \<lparr>textString = [], textHeightForWidth = (\<lambda>_. 0)\<rparr>"

definition textIsEmpty :: "QwtText \<Rightarrow> bool" where
  "textIsEmpty t = (textString t = [])"

record QwtTextLabel =
  labelText :: QwtText
  labelFrameWidth :: int

record QwtAbstractLegend =
  legendFrameWidth :: int
  scrollExtentHorizontal :: int
  scrollExtentVertical :: int
  sizeHint :: QSize
  legendHeightForWidth :: "int \<Rightarrow> int"
  legendIsEmpty :: bool

text \<open>
  A scale widget: \<open>dimForLengthMax\<close> is \<^verbatim>\<open>dimForLength( QWIDGETSIZE_MAX, font )\<close>,
  \<open>hasTicks\<close> is \<^verbatim>\<open>scaleDraw()->hasComponent( Ticks )\<close>.
\<close>

record QwtScaleWidget =
  startBorderDist :: int
  endBorderDist :: int
  margin :: int
  dimForLengthMax :: int
  titleIsEmpty :: bool
  titleHeightForWidth :: "int \<Rightarrow> int"
  hasTicks :: bool
  maxTickLength :: real

definition QWIDGETSIZE_MAX :: int where
  "QWIDGETSIZE_MAX = 16777215"

record ContentsMargins =
  marginLeft :: int
  marginTop :: int
  marginRight :: int
  marginBottom :: int

text \<open>
  The plot: per axis position the axis slots in index order, each with its visibility
  (\<^verbatim>\<open>isAxisVisible\<close>) and its widget; \<^verbatim>\<open>axesCount\<close> is the number of slots.
\<close>

record QwtPlot =
  legend :: "QwtAbstractLegend option"
  titleLabel :: "QwtTextLabel option"
  footerLabel :: "QwtTextLabel option"
  axes :: "AxisPosition \<Rightarrow> (bool \<times> QwtScaleWidget) list"
  canvasContentsMargins :: ContentsMargins

definition axesCount :: "QwtPlot \<Rightarrow> AxisPosition \<Rightarrow> nat" where
  "axesCount plot axisPos = length (axes plot axisPos)"

subsection \<open>QwtPlotLayoutData: the measurements of one pass\<close>

record LegendData =
  frameWidth :: int
  hScrollExtent :: int
  vScrollExtent :: int
  hint :: QSize

record LabelData =
  ltext :: QwtText
  lframeWidth :: int

record ScaleData =
  isVisible :: bool
  scaleWidget :: "QwtScaleWidget option"
  start :: int
  end' :: int
  baseLineOffset :: int
  dimWithoutTitle :: int

datatype Label = Title | Footer

record QwtPlotLayoutData =
  legendData :: LegendData
  labelData :: "Label \<Rightarrow> LabelData"
  scaleData :: "AxisPosition \<Rightarrow> ScaleData list"
  contentsMargins :: "AxisPosition \<Rightarrow> int"
  tickOffset :: "AxisPosition \<Rightarrow> real"
  numVisibleScales :: "AxisPosition \<Rightarrow> int"

text \<open>\<^verbatim>\<open>LegendData::init\<close>: without a legend the data keeps what it held.\<close>

definition LegendData_init :: "QwtAbstractLegend option \<Rightarrow> QRectF \<Rightarrow> LegendData \<Rightarrow> LegendData" where
  "LegendData_init lg rect ld =
     (case lg of
        None \<Rightarrow> ld
      | Some l \<Rightarrow>
          let legendHint = sizeHint l;
              w = min (wd legendHint) (qFloor (width rect));
              h0 = legendHeightForWidth l w;
              h = (if h0 \<le> 0 then ht legendHint else h0);
              w' = (if real_of_int h > height rect then w + scrollExtentHorizontal l else w)
          in \<lparr>frameWidth = legendFrameWidth l,
              hScrollExtent = scrollExtentHorizontal l,
              vScrollExtent = scrollExtentVertical l,
              hint = \<lparr>wd = w', ht = h\<rparr>\<rparr>)"

definition LabelData_init :: "QwtTextLabel option \<Rightarrow> LabelData" where
  "LabelData_init label =
     (case label of
        None \<Rightarrow> \<lparr>ltext = QwtText0, lframeWidth = 0\<rparr>
      | Some l \<Rightarrow> \<lparr>ltext = labelText l, lframeWidth = labelFrameWidth l\<rparr>)"

text \<open>
  \<^verbatim>\<open>ScaleData::init\<close>: for an invisible axis (a null widget) the measurements are
  zeroed and the stored widget pointer is left as it was.
\<close>

definition ScaleData_init :: "QwtScaleWidget option \<Rightarrow> ScaleData \<Rightarrow> ScaleData" where
  "ScaleData_init axisWidget sd =
     (case axisWidget of
        Some aw \<Rightarrow>
          \<lparr>isVisible = True, scaleWidget = Some aw,
           start = startBorderDist aw, end' = endBorderDist aw,
           baseLineOffset = margin aw,
           dimWithoutTitle =
             (if \<not> titleIsEmpty aw
              then dimForLengthMax aw - titleHeightForWidth aw QWIDGETSIZE_MAX
              else dimForLengthMax aw)\<rparr>
      | None \<Rightarrow>
          sd\<lparr>isVisible := False, start := 0, end' := 0,
             baseLineOffset := 0, dimWithoutTitle := 0\<rparr>)"


text \<open>
  \<^verbatim>\<open>QVector::resize\<close>: the vector is cut or filled up with default constructed
  elements. The members of a default constructed \<^verbatim>\<open>ScaleData\<close> are not initialised;
  the model fills them with zeros and a null widget pointer.
\<close>

definition resize :: "nat \<Rightarrow> 'a \<Rightarrow> 'a list \<Rightarrow> 'a list" where
  "resize n dflt xs = take n xs @ replicate (n - length xs) dflt"

definition ScaleData0 :: ScaleData where
  "ScaleData0 = \<lparr>isVisible = False, scaleWidget = None, start = 0, end' = 0,
     baseLineOffset = 0, dimWithoutTitle = 0\<rparr>"

text \<open>
  The body of the inner loop of \<^verbatim>\<open>QwtPlotLayoutData::init\<close> for the axis slot \<open>i\<close>;
  the loop state is the scale data of the position, its tick offset and its number of
  visible scales.
\<close>

definition initAxis ::
  "QwtPlot \<Rightarrow> AxisPosition \<Rightarrow> ScaleData list \<times> real \<times> int \<Rightarrow> nat
     \<Rightarrow> ScaleData list \<times> real \<times> int" where
  "initAxis plot axisPos st i =
     (let sds = fst st; tick = fst (snd st); n = snd (snd st);
          vis = fst (axes plot axisPos ! i); aw = snd (axes plot axisPos ! i)
      in if vis
         then (sds[i := ScaleData_init (Some aw) (sds ! i)],
               (if n = 0
                then real_of_int (margin aw) + (if hasTicks aw then maxTickLength aw else 0)
                else tick),
               n + 1)
         else (sds[i := ScaleData_init None (sds ! i)], tick, n))"

text \<open>
  The inner loop for one position: the scale data is resized to the number of axes,
  tick offset and number of visible scales start at 0.
\<close>

definition initScales ::
  "QwtPlot \<Rightarrow> AxisPosition \<Rightarrow> ScaleData list \<Rightarrow> ScaleData list \<times> real \<times> int" where
  "initScales plot axisPos sds =
     foldl (initAxis plot axisPos)
       (resize (axesCount plot axisPos) ScaleData0 sds, 0, 0) [0..<axesCount plot axisPos]"

definition initPosition :: "QwtPlot \<Rightarrow> QwtPlotLayoutData \<Rightarrow> AxisPosition \<Rightarrow> QwtPlotLayoutData" where
  "initPosition plot ld axisPos =
     (let st = initScales plot axisPos (scaleData ld axisPos)
      in ld\<lparr>scaleData := (scaleData ld)(axisPos := fst st),
            tickOffset := (tickOffset ld)(axisPos := fst (snd st)),
            numVisibleScales := (numVisibleScales ld)(axisPos := snd (snd st))\<rparr>)"

definition CanvasData_init :: "ContentsMargins \<Rightarrow> AxisPosition \<Rightarrow> int" where
  "CanvasData_init m axisPos =
     (case axisPos of yLeft \<Rightarrow> marginLeft m | xTop \<Rightarrow> marginTop m
      | yRight \<Rightarrow> marginRight m | xBottom \<Rightarrow> marginBottom m)"

definition QwtPlotLayoutData_init :: "QwtPlot \<Rightarrow> QRectF \<Rightarrow> QwtPlotLayoutData \<Rightarrow> QwtPlotLayoutData" where
  "QwtPlotLayoutData_init plot rect ld =
     (let ld1 = ld\<lparr>legendData := LegendData_init (legend plot) rect (legendData ld),
                    labelData := (\<lambda>l. case l of Title \<Rightarrow> LabelData_init (titleLabel plot)
                                           | Footer \<Rightarrow> LabelData_init (footerLabel plot))\<rparr>;
          ld2 = foldl (initPosition plot) ld1 axisPositions
      in ld2\<lparr>contentsMargins := CanvasData_init (canvasContentsMargins plot)\<rparr>)"

definition hasSymmetricYAxes :: "QwtPlotLayoutData \<Rightarrow> bool" where
  "hasSymmetricYAxes ld = (numVisibleScales ld yLeft = numVisibleScales ld yRight)"

definition numAxes :: "QwtPlotLayoutData \<Rightarrow> AxisPosition \<Rightarrow> nat" where
  "numAxes ld axisPos = length (scaleData ld axisPos)"

subsection \<open>QwtPlotLayoutEngine\<close>

record QwtPlotLayoutEngine =
  d_legendPos :: LegendPosition
  d_legendRatio :: double
  d_canvasMargin :: "AxisPosition \<Rightarrow> int"
  d_alignCanvas :: "AxisPosition \<Rightarrow> bool"
  d_spacing :: int

record Dimensions =
  dimTitle :: int
  dimFooter :: int
  dimAxisVector :: "AxisPosition \<Rightarrow> int list"

definition Dimensions_new :: "QwtPlotLayoutData \<Rightarrow> Dimensions" where
  "Dimensions_new ld = \<lparr>dimTitle = 0, dimFooter = 0,
     dimAxisVector = (\<lambda>axisPos. replicate (numAxes ld axisPos) 0)\<rparr>"

definition dimAxis :: "Dimensions \<Rightarrow> AxisPosition \<Rightarrow> nat \<Rightarrow> int" where
  "dimAxis d axisPos i = dimAxisVector d axisPos ! i"

definition setDimAxis :: "AxisPosition \<Rightarrow> nat \<Rightarrow> int \<Rightarrow> Dimensions \<Rightarrow> Dimensions" where
  "setDimAxis axisPos i dm d =
     d\<lparr>dimAxisVector := (dimAxisVector d)(axisPos := (dimAxisVector d axisPos)[i := dm])\<rparr>"

definition dimAxes :: "Dimensions \<Rightarrow> AxisPosition \<Rightarrow> int" where
  "dimAxes d axisPos = sum_list (dimAxisVector d axisPos)"

definition dimYAxes :: "Dimensions \<Rightarrow> int" where
  "dimYAxes d = dimAxes d yLeft + dimAxes d yRight"

definition dimXAxes :: "Dimensions \<Rightarrow> int" where
  "dimXAxes d = dimAxes d xTop + dimAxes d xBottom"

definition centered :: "Dimensions \<Rightarrow> QRectF \<Rightarrow> QRectF \<Rightarrow> QRectF" where
  "centered d rect labelRect =
     setWidth (width rect - real_of_int (dimYAxes d))
       (setX (left rect + real_of_int (dimAxes d yLeft)) labelRect)"

definition innerRect :: "Dimensions \<Rightarrow> QRectF \<Rightarrow> QRectF" where
  "innerRect d rect =
     \<lparr>xp = xp rect + real_of_int (dimAxes d yLeft),
      yp = yp rect + real_of_int (dimAxes d xTop),
      rw = width rect - real_of_int (dimYAxes d),
      rh = height rect - real_of_int (dimXAxes d)\<rparr>"

text \<open>The thickness \<^verbatim>\<open>dim\<close> that \<^verbatim>\<open>layoutLegend\<close> computes first.\<close>

definition layoutLegend_dim ::
  "QwtPlotLayoutEngine \<Rightarrow> Options \<Rightarrow> LegendData \<Rightarrow> QRectF \<Rightarrow> fault + int" where
  "layoutLegend_dim eng options ld rect =
     (if d_legendPos eng = LeftLegend \<or> d_legendPos eng = RightLegend
      then
        bindF (toInt (mulDouble (width rect) (d_legendRatio eng))) (\<lambda>n.
          let dm = min (wd (hint ld)) n
          in if IgnoreScrollbars \<notin> options
             then (if real_of_int (ht (hint ld)) > height rect then Inr (dm + hScrollExtent ld)
                   else Inr dm)
             else Inr dm)
      else
        bindF (toInt (mulDouble (height rect) (d_legendRatio eng))) (\<lambda>n.
          let dm = min (ht (hint ld)) n
          in Inr (max dm (vScrollExtent ld))))"

definition layoutLegend ::
  "QwtPlotLayoutEngine \<Rightarrow> Options \<Rightarrow> LegendData \<Rightarrow> QRectF \<Rightarrow> fault + QRectF" where
  "layoutLegend eng options ld rect =
     bindF (layoutLegend_dim eng options ld rect) (\<lambda>n.
       let dm = real_of_int n
       in Inr (case d_legendPos eng of
                 LeftLegend \<Rightarrow> setWidth dm rect
               | RightLegend \<Rightarrow> setWidth dm (setX (right rect - dm) rect)
               | TopLegend \<Rightarrow> setHeight dm rect
               | BottomLegend \<Rightarrow> setHeight dm (setY (bottom rect - dm) rect)))"

definition alignLegend :: "QwtPlotLayoutEngine \<Rightarrow> LegendData \<Rightarrow> QRectF \<Rightarrow> QRectF \<Rightarrow> QRectF" where
  "alignLegend eng ld canvasRect legendRect =
     (if d_legendPos eng = BottomLegend \<or> d_legendPos eng = TopLegend
      then
        (if real_of_int (wd (hint ld)) < width canvasRect
         then setWidth (width canvasRect) (setX (xp canvasRect) legendRect)
         else legendRect)
      else
        (if real_of_int (ht (hint ld)) < height canvasRect
         then setHeight (height canvasRect) (setY (yp canvasRect) legendRect)
         else legendRect))"

definition heightForWidth ::
  "Label \<Rightarrow> QwtPlotLayoutData \<Rightarrow> Options \<Rightarrow> real \<Rightarrow> int \<Rightarrow> int" where
  "heightForWidth labelType ld options wdth axesWidth =
     (let lbl = labelData ld labelType
      in if textIsEmpty (ltext lbl) then 0
         else
           let w = (if \<not> hasSymmetricYAxes ld then wdth - real_of_int axesWidth else wdth);
               d = qCeil (textHeightForWidth (ltext lbl) w)
           in if IgnoreFrames \<notin> options then d + 2 * lframeWidth lbl else d)"


subsection \<open>The dimension solver: layoutDimensions\<close>

definition backboneOffset ::
  "QwtPlotLayoutEngine \<Rightarrow> Options \<Rightarrow> QwtPlotLayoutData \<Rightarrow> AxisPosition \<Rightarrow> int" where
  "backboneOffset eng options ld axisPos =
     (if IgnoreFrames \<notin> options then contentsMargins ld axisPos else 0)
     + (if \<not> d_alignCanvas eng axisPos then d_canvasMargin eng axisPos else 0)"

text \<open>The length available to a visible axis, as the loop body computes it.\<close>

definition layoutDimensions_length ::
  "QwtPlotLayoutEngine \<Rightarrow> Options \<Rightarrow> QwtPlotLayoutData \<Rightarrow> QRectF \<Rightarrow> Dimensions
     \<Rightarrow> AxisPosition \<Rightarrow> ScaleData \<Rightarrow> real" where
  "layoutDimensions_length eng options ld rect d axisPos sd =
     (if qwtIsXAxis axisPos
      then
        let l0 = width rect - real_of_int (dimYAxes d);
            l1 = l0 - real_of_int (start sd + end' sd);
            l2 = (if dimAxes d yRight > 0 then l1 - 1 else l1);
            l3 = l2 + real_of_int (min (dimAxes d yLeft)
                        (start sd - backboneOffset eng options ld yLeft))
        in l3 + real_of_int (min (dimAxes d yRight)
                        (end' sd - backboneOffset eng options ld yRight))
      else
        let l0 = height rect - real_of_int (dimXAxes d);
            l1 = l0 - real_of_int (start sd + end' sd);
            l2 = l1 - 1;
            l3 = (if dimAxes d xBottom \<le> 0 then l2 - 1 else l2);
            l4 = (if dimAxes d xTop \<le> 0 then l3 - 1 else l3);
            l5 = (if dimAxes d xBottom > 0
                  then l4 + min (tickOffset ld xBottom)
                         (real_of_int (start sd - backboneOffset eng options ld xBottom))
                  else l4);
            l6 = (if dimAxes d xTop > 0
                  then l5 + min (tickOffset ld xTop)
                         (real_of_int (end' sd - backboneOffset eng options ld xTop))
                  else l5)
        in if dimTitle d > 0 then l6 - real_of_int (dimTitle d + d_spacing eng) else l6)"

text \<open>
  The body of the loops over the axes for the slot \<open>(axisPos, i)\<close>; the state is the
  dimensions and the flag \<^verbatim>\<open>done\<close>.
\<close>

definition layoutAxis ::
  "QwtPlotLayoutEngine \<Rightarrow> Options \<Rightarrow> QwtPlotLayoutData \<Rightarrow> QRectF \<Rightarrow> AxisPosition \<Rightarrow> nat
     \<Rightarrow> Dimensions \<times> bool \<Rightarrow> fault + Dimensions \<times> bool" where
  "layoutAxis eng options ld rect axisPos i st =
     (let sd = scaleData ld axisPos ! i
      in if isVisible sd
         then
           (case scaleWidget sd of
              None \<Rightarrow> Inl NullPointer
            | Some aw \<Rightarrow>
                let len = layoutDimensions_length eng options ld rect (fst st) axisPos sd;
                    dm = (if \<not> titleIsEmpty aw
                          then dimWithoutTitle sd + titleHeightForWidth aw (qFloor len)
                          else dimWithoutTitle sd)
                in if dm > dimAxis (fst st) axisPos i
                   then Inr (setDimAxis axisPos i dm (fst st), False)
                   else Inr st)
         else Inr st)"

definition layoutLabel ::
  "Label \<Rightarrow> Options \<Rightarrow> QwtPlotLayoutData \<Rightarrow> QRectF \<Rightarrow> Dimensions \<times> bool \<Rightarrow> Dimensions \<times> bool" where
  "layoutLabel labelType options ld rect st =
     (case labelType of
        Title \<Rightarrow>
          if IgnoreTitle \<notin> options
          then
            let dm = heightForWidth Title ld options (width rect) (dimYAxes (fst st))
            in if dm > dimTitle (fst st) then ((fst st)\<lparr>dimTitle := dm\<rparr>, False) else st
          else st
      | Footer \<Rightarrow>
          if IgnoreFooter \<notin> options
          then
            let dm = heightForWidth Footer ld options (width rect) (dimYAxes (fst st))
            in if dm > dimFooter (fst st) then ((fst st)\<lparr>dimFooter := dm\<rparr>, False) else st
          else st)"

text \<open>One run of the body of \<^verbatim>\<open>while ( !done )\<close>, which starts with \<^verbatim>\<open>done = true\<close>.\<close>

definition layoutIteration ::
  "QwtPlotLayoutEngine \<Rightarrow> Options \<Rightarrow> QwtPlotLayoutData \<Rightarrow> QRectF \<Rightarrow> Dimensions
     \<Rightarrow> fault + Dimensions \<times> bool" where
  "layoutIteration eng options ld rect d =
     foldF (\<lambda>axisPos. foldF (layoutAxis eng options ld rect axisPos) [0..<numAxes ld axisPos])
       axisPositions
       (layoutLabel Footer options ld rect (layoutLabel Title options ld rect (d, True)))"

partial_function (option) layoutLoop ::
  "QwtPlotLayoutEngine \<Rightarrow> Options \<Rightarrow> QwtPlotLayoutData \<Rightarrow> QRectF \<Rightarrow> Dimensions
     \<Rightarrow> (fault + Dimensions) option" where
  "layoutLoop eng options ld rect d =
     (case layoutIteration eng options ld rect d of
        Inl e \<Rightarrow> Some (Inl e)
      | Inr st \<Rightarrow> if snd st then Some (Inr (fst st)) else layoutLoop eng options ld rect (fst st))"

declare layoutLoop.simps [code]

definition layoutDimensions ::
  "QwtPlotLayoutEngine \<Rightarrow> Options \<Rightarrow> QwtPlotLayoutData \<Rightarrow> QRectF \<Rightarrow> (fault + Dimensions) option" where
  "layoutDimensions eng options ld rect = layoutLoop eng options ld rect (Dimensions_new ld)"


subsection \<open>The scale aligner: alignScales\<close>

text \<open>
  The four adjustments of the first loop. Each takes the canvas rectangle and the
  rectangle of the axis under work and returns both; \<open>other\<close> is the rectangle of
  the first axis at the neighbouring position.
\<close>

definition alignLeft ::
  "QwtPlotLayoutEngine \<Rightarrow> int \<Rightarrow> QRectF \<Rightarrow> QRectF \<times> QRectF \<Rightarrow> QRectF \<times> QRectF" where
  "alignLeft eng leftOffset other ca =
     (let canvasRect = fst ca; axisRect = snd ca
      in if isValid other
         then
           let dx = real_of_int leftOffset + width other
           in if d_alignCanvas eng yLeft \<and> dx < 0
              then (setLeft (max (left canvasRect) (left axisRect - dx)) canvasRect, axisRect)
              else (canvasRect,
                    setLeft (max (left axisRect + real_of_int leftOffset) (left other)) axisRect)
         else
           if d_alignCanvas eng yLeft \<and> leftOffset < 0
           then (setLeft (max (left canvasRect) (left axisRect - real_of_int leftOffset)) canvasRect,
                 axisRect)
           else if leftOffset > 0
           then (canvasRect, setLeft (left axisRect + real_of_int leftOffset) axisRect)
           else ca)"

definition alignRight ::
  "QwtPlotLayoutEngine \<Rightarrow> int \<Rightarrow> QRectF \<Rightarrow> QRectF \<times> QRectF \<Rightarrow> QRectF \<times> QRectF" where
  "alignRight eng rightOffset other ca =
     (let canvasRect = fst ca; axisRect = snd ca
      in if isValid other
         then
           let dx = real_of_int rightOffset + width other;
               canvasRect1 = (if d_alignCanvas eng yRight \<and> dx < 0
                              then setRight (min (right canvasRect) (right axisRect + dx)) canvasRect
                              else canvasRect)
           in (canvasRect1,
               setRight (min (right axisRect - real_of_int rightOffset) (right other)) axisRect)
         else
           if d_alignCanvas eng yRight \<and> rightOffset < 0
           then (setRight (min (right canvasRect) (right axisRect + real_of_int rightOffset)) canvasRect,
                 axisRect)
           else if rightOffset > 0
           then (canvasRect, setRight (right axisRect - real_of_int rightOffset) axisRect)
           else ca)"

definition alignBottom ::
  "QwtPlotLayoutEngine \<Rightarrow> QwtPlotLayoutData \<Rightarrow> int \<Rightarrow> QRectF \<Rightarrow> QRectF \<times> QRectF
     \<Rightarrow> QRectF \<times> QRectF" where
  "alignBottom eng ld bottomOffset other ca =
     (let canvasRect = fst ca; axisRect = snd ca
      in if isValid other
         then
           let dy = real_of_int bottomOffset + height other
           in if d_alignCanvas eng xBottom \<and> dy < 0
              then (setBottom (min (bottom canvasRect) (bottom axisRect + dy)) canvasRect, axisRect)
              else (canvasRect,
                    setBottom (min (bottom axisRect - real_of_int bottomOffset)
                                   (top other + tickOffset ld xBottom)) axisRect)
         else
           if d_alignCanvas eng xBottom \<and> bottomOffset < 0
           then (setBottom (min (bottom canvasRect) (bottom axisRect + real_of_int bottomOffset))
                   canvasRect, axisRect)
           else if bottomOffset > 0
           then (canvasRect, setBottom (bottom axisRect - real_of_int bottomOffset) axisRect)
           else ca)"

definition alignTop ::
  "QwtPlotLayoutEngine \<Rightarrow> QwtPlotLayoutData \<Rightarrow> int \<Rightarrow> QRectF \<Rightarrow> QRectF \<times> QRectF
     \<Rightarrow> QRectF \<times> QRectF" where
  "alignTop eng ld topOffset other ca =
     (let canvasRect = fst ca; axisRect = snd ca
      in if isValid other
         then
           let dy = real_of_int topOffset + height other
           in if d_alignCanvas eng xTop \<and> dy < 0
              then (setTop (max (top canvasRect) (top axisRect - dy)) canvasRect, axisRect)
              else (canvasRect,
                    setTop (max (top axisRect + real_of_int topOffset)
                                (bottom other - tickOffset ld xTop)) axisRect)
         else
           if d_alignCanvas eng xTop \<and> topOffset < 0
           then (setTop (max (top canvasRect) (top axisRect - real_of_int topOffset)) canvasRect,
                 axisRect)
           else if topOffset > 0
           then (canvasRect, setTop (top axisRect + real_of_int topOffset) axisRect)
           else ca)"

type_synonym ScaleRects = "AxisPosition \<Rightarrow> QRectF list"

text \<open>The body of the first pair of loops for the slot \<open>(axisPos, i)\<close>.\<close>

definition alignScales_first ::
  "QwtPlotLayoutEngine \<Rightarrow> Options \<Rightarrow> QwtPlotLayoutData \<Rightarrow> AxisPosition \<Rightarrow> nat
     \<Rightarrow> QRectF \<times> ScaleRects \<Rightarrow> fault + QRectF \<times> ScaleRects" where
  "alignScales_first eng options ld axisPos i st =
     (let canvasRect = fst st; scaleRect = snd st
      in bindF (atF (scaleRect axisPos) i) (\<lambda>axisRect.
           if \<not> isValid axisRect then Inr st
           else
             let startDist = start (scaleData ld axisPos ! i);
                 endDist = end' (scaleData ld axisPos ! i)
             in if qwtIsXAxis axisPos
                then
                  bindF (atF (scaleRect yLeft) QWT_DUMMY_ID) (\<lambda>leftScaleRect.
                  bindF (atF (scaleRect yRight) QWT_DUMMY_ID) (\<lambda>rightScaleRect.
                    let ca1 = alignLeft eng (backboneOffset eng options ld yLeft - startDist)
                                leftScaleRect (canvasRect, axisRect);
                        ca2 = alignRight eng (backboneOffset eng options ld yRight - endDist + 1)
                                rightScaleRect ca1
                    in Inr (fst ca2, scaleRect(axisPos := (scaleRect axisPos)[i := snd ca2]))))
                else
                  bindF (atF (scaleRect xBottom) QWT_DUMMY_ID) (\<lambda>bottomScaleRect.
                  bindF (atF (scaleRect xTop) QWT_DUMMY_ID) (\<lambda>topScaleRect.
                    let ca1 = alignBottom eng ld (backboneOffset eng options ld xBottom - endDist + 1)
                                bottomScaleRect (canvasRect, axisRect);
                        ca2 = alignTop eng ld (backboneOffset eng options ld xTop - startDist)
                                topScaleRect ca1
                    in Inr (fst ca2, scaleRect(axisPos := (scaleRect axisPos)[i := snd ca2]))))))"

text \<open>The body of the second pair of loops, which realigns the scales to the canvas.\<close>

definition alignScales_second ::
  "QwtPlotLayoutEngine \<Rightarrow> Options \<Rightarrow> QwtPlotLayoutData \<Rightarrow> AxisPosition \<Rightarrow> nat
     \<Rightarrow> QRectF \<times> ScaleRects \<Rightarrow> fault + QRectF \<times> ScaleRects" where
  "alignScales_second eng options ld axisPos i st =
     (let canvasRect = fst st; scaleRect = snd st; axisData = scaleData ld axisPos ! i
      in bindF (atF (scaleRect axisPos) i) (\<lambda>sRect.
           if \<not> isValid sRect then Inr st
           else
             let sRect3 =
               (if qwtIsXAxis axisPos
                then
                  let sRect1 =
                        (if d_alignCanvas eng yLeft
                         then setLeft (left canvasRect - real_of_int (start axisData)
                                + (if IgnoreFrames \<notin> options
                                   then real_of_int (contentsMargins ld yLeft) else 0)) sRect
                         else sRect);
                      sRect2 =
                        (if d_alignCanvas eng yRight
                         then setRight (right canvasRect - 1 + real_of_int (end' axisData)
                                - (if IgnoreFrames \<notin> options
                                   then real_of_int (contentsMargins ld yRight) else 0)) sRect1
                         else sRect1)
                  in if d_alignCanvas eng axisPos
                     then (if axisPos = xTop then setBottom (top canvasRect) sRect2
                           else setTop (bottom canvasRect) sRect2)
                     else sRect2
                else
                  let sRect1 =
                        (if d_alignCanvas eng xTop
                         then setTop (top canvasRect - real_of_int (start axisData)
                                + (if IgnoreFrames \<notin> options
                                   then real_of_int (contentsMargins ld xTop) else 0)) sRect
                         else sRect);
                      sRect2 =
                        (if d_alignCanvas eng xBottom
                         then setBottom (bottom canvasRect - 1 + real_of_int (end' axisData)
                                - (if IgnoreFrames \<notin> options
                                   then real_of_int (contentsMargins ld xBottom) else 0)) sRect1
                         else sRect1)
                  in if d_alignCanvas eng axisPos
                     then (if axisPos = yLeft then setRight (left canvasRect) sRect2
                           else setLeft (right canvasRect) sRect2)
                     else sRect2)
             in Inr (canvasRect, scaleRect(axisPos := (scaleRect axisPos)[i := sRect3]))))"

definition alignScales ::
  "QwtPlotLayoutEngine \<Rightarrow> Options \<Rightarrow> QwtPlotLayoutData \<Rightarrow> QRectF \<times> ScaleRects
     \<Rightarrow> fault + QRectF \<times> ScaleRects" where
  "alignScales eng options ld st =
     bindF
       (foldF (\<lambda>axisPos. foldF (alignScales_first eng options ld axisPos) [0..<numAxes ld axisPos])
          axisPositions st)
       (foldF (\<lambda>axisPos. foldF (alignScales_second eng options ld axisPos) [0..<numAxes ld axisPos])
          axisPositions)"


subsection \<open>QwtPlotLayout: state, setters and accessors\<close>

record PrivateData =
  titleRect :: QRectF
  footerRect :: QRectF
  legendRect :: QRectF
  scaleRects :: ScaleRects
  canvasRect :: QRectF
  layoutData :: QwtPlotLayoutData
  layoutEngine :: QwtPlotLayoutEngine

definition setCanvasMargin :: "int \<Rightarrow> int \<Rightarrow> PrivateData \<Rightarrow> PrivateData" where
  "setCanvasMargin margin0 axisPos s =
     (let m = (if margin0 < -1 then -1 else margin0); eng = layoutEngine s
      in if axisPos = -1
         then s\<lparr>layoutEngine := eng\<lparr>d_canvasMargin := (\<lambda>_. m)\<rparr>\<rparr>
         else if axisPos \<ge> 0 \<and> axisPos < NumAxisPositions
         then s\<lparr>layoutEngine := eng\<lparr>d_canvasMargin := (d_canvasMargin eng)(toAxisPos axisPos := m)\<rparr>\<rparr>
         else s)"

definition canvasMargin :: "PrivateData \<Rightarrow> int \<Rightarrow> int" where
  "canvasMargin s axisId =
     (if axisId < 0 \<or> axisId \<ge> NumAxisPositions then 0
      else d_canvasMargin (layoutEngine s) (toAxisPos axisId))"

definition setAlignCanvasToScales :: "bool \<Rightarrow> PrivateData \<Rightarrow> PrivateData" where
  "setAlignCanvasToScales on s =
     s\<lparr>layoutEngine := (layoutEngine s)\<lparr>d_alignCanvas := (\<lambda>_. on)\<rparr>\<rparr>"

definition setAlignCanvasToScale :: "int \<Rightarrow> bool \<Rightarrow> PrivateData \<Rightarrow> PrivateData" where
  "setAlignCanvasToScale axisPos on s =
     (if axisPos \<ge> 0 \<and> axisPos < NumAxisPositions
      then s\<lparr>layoutEngine := (layoutEngine s)
               \<lparr>d_alignCanvas := (d_alignCanvas (layoutEngine s))(toAxisPos axisPos := on)\<rparr>\<rparr>
      else s)"

definition alignCanvasToScale :: "PrivateData \<Rightarrow> int \<Rightarrow> bool" where
  "alignCanvasToScale s axisPos =
     (if axisPos < 0 \<or> axisPos \<ge> NumAxisPositions then False
      else d_alignCanvas (layoutEngine s) (toAxisPos axisPos))"

definition setSpacing :: "int \<Rightarrow> PrivateData \<Rightarrow> PrivateData" where
  "setSpacing sp s = s\<lparr>layoutEngine := (layoutEngine s)\<lparr>d_spacing := max 0 sp\<rparr>\<rparr>"

definition spacing :: "PrivateData \<Rightarrow> int" where
  "spacing s = d_spacing (layoutEngine s)"

definition setLegendPosition :: "LegendPosition \<Rightarrow> double \<Rightarrow> PrivateData \<Rightarrow> PrivateData" where
  "setLegendPosition lpos ratio0 s =
     (let ratio = (if gtDouble ratio0 1 then Finite 1 else ratio0)
      in case lpos of
           TopLegend \<Rightarrow>
             s\<lparr>layoutEngine := (layoutEngine s)
                 \<lparr>d_legendPos := lpos,
                  d_legendRatio := (if leDouble ratio 0 then roundDouble (33 / 100) else ratio)\<rparr>\<rparr>
         | BottomLegend \<Rightarrow>
             s\<lparr>layoutEngine := (layoutEngine s)
                 \<lparr>d_legendPos := lpos,
                  d_legendRatio := (if leDouble ratio 0 then roundDouble (33 / 100) else ratio)\<rparr>\<rparr>
         | LeftLegend \<Rightarrow>
             s\<lparr>layoutEngine := (layoutEngine s)
                 \<lparr>d_legendPos := lpos,
                  d_legendRatio := (if leDouble ratio 0 then Finite (1 / 2) else ratio)\<rparr>\<rparr>
         | RightLegend \<Rightarrow>
             s\<lparr>layoutEngine := (layoutEngine s)
                 \<lparr>d_legendPos := lpos,
                  d_legendRatio := (if leDouble ratio 0 then Finite (1 / 2) else ratio)\<rparr>\<rparr>)"

definition setLegendPosition1 :: "LegendPosition \<Rightarrow> PrivateData \<Rightarrow> PrivateData" where
  "setLegendPosition1 lpos s = setLegendPosition lpos (Finite 0) s"

definition legendPosition :: "PrivateData \<Rightarrow> LegendPosition" where
  "legendPosition s = d_legendPos (layoutEngine s)"

definition setLegendRatio :: "double \<Rightarrow> PrivateData \<Rightarrow> PrivateData" where
  "setLegendRatio ratio s = setLegendPosition (legendPosition s) ratio s"

definition legendRatio :: "PrivateData \<Rightarrow> double" where
  "legendRatio s = d_legendRatio (layoutEngine s)"

definition setTitleRect :: "QRectF \<Rightarrow> PrivateData \<Rightarrow> PrivateData" where
  "setTitleRect rect s = s\<lparr>titleRect := rect\<rparr>"

definition setFooterRect :: "QRectF \<Rightarrow> PrivateData \<Rightarrow> PrivateData" where
  "setFooterRect rect s = s\<lparr>footerRect := rect\<rparr>"

definition setLegendRect :: "QRectF \<Rightarrow> PrivateData \<Rightarrow> PrivateData" where
  "setLegendRect rect s = s\<lparr>legendRect := rect\<rparr>"

definition setCanvasRect :: "QRectF \<Rightarrow> PrivateData \<Rightarrow> PrivateData" where
  "setCanvasRect rect s = s\<lparr>canvasRect := rect\<rparr>"

definition setScaleRect :: "QwtAxisId \<Rightarrow> QRectF \<Rightarrow> PrivateData \<Rightarrow> PrivateData" where
  "setScaleRect axisId rect s =
     (if pos axisId \<ge> 0 \<and> pos axisId < NumAxisPositions
      then
        let rs = scaleRects s (toAxisPos (pos axisId))
        in if idn axisId \<ge> 0 \<and> idn axisId < int (length rs)
           then s\<lparr>scaleRects := (scaleRects s)(toAxisPos (pos axisId) := rs[nat (idn axisId) := rect])\<rparr>
           else s
      else s)"

definition scaleRect :: "PrivateData \<Rightarrow> QwtAxisId \<Rightarrow> QRectF" where
  "scaleRect s axisId =
     (if pos axisId \<ge> 0 \<and> pos axisId < NumAxisPositions
      then
        let rs = scaleRects s (toAxisPos (pos axisId))
        in if idn axisId \<ge> 0 \<and> idn axisId < int (length rs)
           then rs ! nat (idn axisId)
           else QRectF0
      else QRectF0)"

definition invalidate :: "PrivateData \<Rightarrow> PrivateData" where
  "invalidate s =
     s\<lparr>titleRect := QRectF0, footerRect := QRectF0, legendRect := QRectF0, canvasRect := QRectF0,
       scaleRects := (\<lambda>axisPos. (resize 1 QRectF0 (scaleRects s axisPos))[0 := QRectF0])\<rparr>"

text \<open>
  The constructor. The members of a new \<^verbatim>\<open>PrivateData\<close> that no constructor sets
  hold whatever the memory held: they are taken from \<open>mem\<close>. The rectangles are
  default constructed, the vectors are empty and the spacing is 5.
\<close>

definition PrivateData_new :: "PrivateData \<Rightarrow> PrivateData" where
  "PrivateData_new mem =
     mem\<lparr>titleRect := QRectF0, footerRect := QRectF0, legendRect := QRectF0,
         canvasRect := QRectF0, scaleRects := (\<lambda>_. []),
         layoutData := (layoutData mem)\<lparr>scaleData := (\<lambda>_. []),
            labelData := (\<lambda>l. (labelData (layoutData mem) l)\<lparr>ltext := QwtText0\<rparr>)\<rparr>,
         layoutEngine := (layoutEngine mem)\<lparr>d_spacing := 5\<rparr>\<rparr>"

definition QwtPlotLayout_new :: "PrivateData \<Rightarrow> PrivateData" where
  "QwtPlotLayout_new mem =
     invalidate (setAlignCanvasToScales False (setCanvasMargin 4 (-1)
       (setLegendPosition1 BottomLegend (PrivateData_new mem))))"

subsection \<open>The layout pass: update and activate\<close>

text \<open>The legend step of \<^verbatim>\<open>activate\<close>: the legend rectangle and the rest of the rect.\<close>

definition activate_legend ::
  "QwtPlot \<Rightarrow> Options \<Rightarrow> PrivateData \<Rightarrow> QRectF \<Rightarrow> fault + PrivateData \<times> QRectF" where
  "activate_legend plot options s rect =
     (if IgnoreLegend \<notin> options \<and> (case legend plot of None \<Rightarrow> False | Some l \<Rightarrow> \<not> legendIsEmpty l)
      then
        bindF (layoutLegend (layoutEngine s) options (legendData (layoutData s)) rect) (\<lambda>lr.
          let rect1 = fromRect (subtractedBoundingRect (toRect rect) (toRect lr));
              rect2 = (case d_legendPos (layoutEngine s) of
                         LeftLegend \<Rightarrow> setLeft (left rect1 + real_of_int (spacing s)) rect1
                       | RightLegend \<Rightarrow> setRight (right rect1 - real_of_int (spacing s)) rect1
                       | TopLegend \<Rightarrow> setTop (top rect1 + real_of_int (spacing s)) rect1
                       | BottomLegend \<Rightarrow> setBottom (bottom rect1 - real_of_int (spacing s)) rect1)
          in Inr (s\<lparr>legendRect := lr\<rparr>, rect2))
      else Inr (s, rect))"

definition activate_title :: "Dimensions \<Rightarrow> PrivateData \<times> QRectF \<Rightarrow> PrivateData \<times> QRectF" where
  "activate_title d sr =
     (let s = fst sr; rect = snd sr
      in if dimTitle d > 0
         then
           let labelRect = \<lparr>xp = left rect, yp = top rect, rw = width rect,
                            rh = real_of_int (dimTitle d)\<rparr>;
               rect1 = setTop (bottom labelRect + real_of_int (spacing s)) rect;
               labelRect1 = (if \<not> hasSymmetricYAxes (layoutData s)
                             then centered d rect1 labelRect else labelRect)
           in (s\<lparr>titleRect := labelRect1\<rparr>, rect1)
         else sr)"

definition activate_footer :: "Dimensions \<Rightarrow> PrivateData \<times> QRectF \<Rightarrow> PrivateData \<times> QRectF" where
  "activate_footer d sr =
     (let s = fst sr; rect = snd sr
      in if dimFooter d > 0
         then
           let labelRect = \<lparr>xp = left rect, yp = bottom rect - real_of_int (dimFooter d),
                            rw = width rect, rh = real_of_int (dimFooter d)\<rparr>;
               rect1 = setBottom (top labelRect - real_of_int (spacing s)) rect;
               labelRect1 = (if \<not> hasSymmetricYAxes (layoutData s)
                             then centered d rect1 labelRect else labelRect)
           in (s\<lparr>footerRect := labelRect1\<rparr>, rect1)
         else sr)"

text \<open>
  The body of the loop that sets the rectangles of the axes of one position; the state is
  the stacking offset \<^verbatim>\<open>pos\<close> and the scale rectangles.
\<close>

definition activate_axis ::
  "Dimensions \<Rightarrow> QRectF \<Rightarrow> AxisPosition \<Rightarrow> nat \<Rightarrow> int \<times> ScaleRects \<Rightarrow> fault + int \<times> ScaleRects" where
  "activate_axis d canvas axisPos i st =
     bindF (atF (dimAxisVector d axisPos) i) (\<lambda>dm.
       if dm \<noteq> 0
       then
         let p = fst st;
             r = (case axisPos of
                    yLeft \<Rightarrow> setWidth (real_of_int dm)
                               (setX (left canvas - real_of_int p - real_of_int dm) canvas)
                  | yRight \<Rightarrow> setWidth (real_of_int dm) (setX (right canvas + real_of_int p) canvas)
                  | xBottom \<Rightarrow> setHeight (real_of_int dm) (setY (bottom canvas + real_of_int p) canvas)
                  | xTop \<Rightarrow> setHeight (real_of_int dm)
                              (setY (top canvas - real_of_int p - real_of_int dm) canvas))
         in Inr (p + dm, (snd st)(axisPos := (snd st axisPos)[i := normalized r]))
       else Inr st)"

definition activate_axes :: "Dimensions \<Rightarrow> QRectF \<Rightarrow> AxisPosition \<Rightarrow> ScaleRects \<Rightarrow> fault + ScaleRects" where
  "activate_axes d canvas axisPos rs =
     bindF (foldF (activate_axis d canvas axisPos) [0..<length (rs axisPos)] (0, rs))
       (\<lambda>st. Inr (snd st))"

text \<open>What \<^verbatim>\<open>activate\<close> does once the dimensions are known.\<close>

definition activate_rects ::
  "Options \<Rightarrow> Dimensions \<Rightarrow> PrivateData \<times> QRectF \<Rightarrow> fault + PrivateData" where
  "activate_rects options d sr =
     (let sr2 = activate_footer d (activate_title d sr);
          s2 = fst sr2;
          canvas = innerRect d (snd sr2)
      in bindF (foldF (activate_axes d canvas) axisPositions (scaleRects s2)) (\<lambda>rs.
         bindF (alignScales (layoutEngine s2) options (layoutData s2) (canvas, rs)) (\<lambda>cr.
           let s3 = s2\<lparr>canvasRect := fst cr, scaleRects := snd cr\<rparr>
           in if \<not> isEmpty (legendRect s3)
              then Inr (s3\<lparr>legendRect := alignLegend (layoutEngine s3) (legendData (layoutData s3))
                                           (canvasRect s3) (legendRect s3)\<rparr>)
              else Inr s3)))"

text \<open>
  \<^verbatim>\<open>activate\<close>. The result is \<open>None\<close> when the loop of the dimension solver runs forever.
\<close>

definition activate ::
  "QwtPlot \<Rightarrow> QRectF \<Rightarrow> Options \<Rightarrow> PrivateData \<Rightarrow> (fault + PrivateData) option" where
  "activate plot plotRect options s =
     (let s1 = s\<lparr>layoutData := QwtPlotLayoutData_init plot plotRect (layoutData s)\<rparr>
      in case activate_legend plot options s1 plotRect of
           Inl e \<Rightarrow> Some (Inl e)
         | Inr sr \<Rightarrow>
             (case layoutDimensions (layoutEngine s1) options (layoutData s1) (snd sr) of
                None \<Rightarrow> None
              | Some (Inl e) \<Rightarrow> Some (Inl e)
              | Some (Inr d) \<Rightarrow> Some (activate_rects options d sr)))"

definition update ::
  "QwtPlot \<Rightarrow> QRectF \<Rightarrow> Options \<Rightarrow> PrivateData \<Rightarrow> (fault + PrivateData) option" where
  "update plot plotRect options s =
     (let s0 = invalidate s;
          s1 = s0\<lparr>scaleRects := (\<lambda>axisPos. resize (axesCount plot axisPos) QRectF0 (scaleRects s0 axisPos))\<rparr>
      in activate plot plotRect options s1)"

subsection \<open>Sequences of setter calls\<close>

datatype call =
    SetCanvasMargin int int
  | SetAlignCanvasToScales bool
  | SetAlignCanvasToScale int bool
  | SetSpacing int
  | SetLegendPosition LegendPosition double
  | SetLegendPosition1 LegendPosition
  | SetLegendRatio double
  | SetTitleRect QRectF
  | SetFooterRect QRectF
  | SetLegendRect QRectF
  | SetScaleRect QwtAxisId QRectF
  | SetCanvasRect QRectF
  | Invalidate

fun perform :: "call \<Rightarrow> PrivateData \<Rightarrow> PrivateData" where
  "perform (SetCanvasMargin m a) s = setCanvasMargin m a s"
| "perform (SetAlignCanvasToScales on) s = setAlignCanvasToScales on s"
| "perform (SetAlignCanvasToScale a on) s = setAlignCanvasToScale a on s"
| "perform (SetSpacing n) s = setSpacing n s"
| "perform (SetLegendPosition p r) s = setLegendPosition p r s"
| "perform (SetLegendPosition1 p) s = setLegendPosition1 p s"
| "perform (SetLegendRatio r) s = setLegendRatio r s"
| "perform (SetTitleRect r) s = setTitleRect r s"
| "perform (SetFooterRect r) s = setFooterRect r s"
| "perform (SetLegendRect r) s = setLegendRect r s"
| "perform (SetScaleRect a r) s = setScaleRect a r s"
| "perform (SetCanvasRect r) s = setCanvasRect r s"
| "perform Invalidate s = invalidate s"

definition calls :: "call list \<Rightarrow> PrivateData \<Rightarrow> PrivateData" where
  "calls cs s = foldl (\<lambda>s c. perform c s) s cs"

text \<open>The invariant of the configuration: the ratio is in (0, 1], the spacing is not negative.\<close>

definition configOk :: "PrivateData \<Rightarrow> bool" where
  "configOk s = (gtDouble (legendRatio s) 0 \<and> leDouble (legendRatio s) 1 \<and> 0 \<le> spacing s)"

text \<open>The calls that hand NaN to the layout as legend ratio.\<close>

fun passesNaN :: "call \<Rightarrow> bool" where
  "passesNaN (SetLegendPosition p r) = (r = NaN)"
| "passesNaN (SetLegendRatio r) = (r = NaN)"
| "passesNaN c = False"

subsection \<open>The legend thickness in the words of the specification\<close>

text \<open>
  The minimum of the size hint and the rect span times the legend ratio, plus the scroll
  extent when the perpendicular content overflows and scroll bars are not ignored.
\<close>

definition specLegendThickness ::
  "QwtPlotLayoutEngine \<Rightarrow> Options \<Rightarrow> LegendData \<Rightarrow> QRectF \<Rightarrow> fault + int" where
  "specLegendThickness eng options ld rect =
     (if d_legendPos eng = LeftLegend \<or> d_legendPos eng = RightLegend
      then bindF (toInt (mulDouble (width rect) (d_legendRatio eng))) (\<lambda>n.
             Inr (min (wd (hint ld)) n
                  + (if real_of_int (ht (hint ld)) > height rect \<and> IgnoreScrollbars \<notin> options
                     then hScrollExtent ld else 0)))
      else bindF (toInt (mulDouble (height rect) (d_legendRatio eng))) (\<lambda>n.
             Inr (min (ht (hint ld)) n
                  + (if real_of_int (wd (hint ld)) > width rect \<and> IgnoreScrollbars \<notin> options
                     then vScrollExtent ld else 0))))"

subsection \<open>The widget of an axis slot\<close>

text \<open>The widget that \<^verbatim>\<open>QwtPlotLayoutData::init\<close> hands to the scale data of a slot.\<close>

definition axisWidgetOf :: "QwtPlot \<Rightarrow> AxisPosition \<Rightarrow> nat \<Rightarrow> QwtScaleWidget option" where
  "axisWidgetOf plot axisPos i =
     (if fst (axes plot axisPos ! i) then Some (snd (axes plot axisPos ! i)) else None)"

subsection \<open>The state at the start of a layout pass\<close>

text \<open>
  What \<^verbatim>\<open>update\<close> hands to \<^verbatim>\<open>activate\<close>: all rectangles are null, with one scale
  rectangle for every axis of the plot.
\<close>

definition freshRects :: "QwtPlot \<Rightarrow> PrivateData \<Rightarrow> PrivateData" where
  "freshRects plot s =
     s\<lparr>titleRect := QRectF0, footerRect := QRectF0, legendRect := QRectF0, canvasRect := QRectF0,
       scaleRects := (\<lambda>axisPos. replicate (axesCount plot axisPos) QRectF0)\<rparr>"

text \<open>A plot with nothing to lay out but the canvas.\<close>

definition plotHasNoContent :: "Options \<Rightarrow> QwtPlot \<Rightarrow> bool" where
  "plotHasNoContent options plot =
     ((case titleLabel plot of None \<Rightarrow> True | Some l \<Rightarrow> textIsEmpty (labelText l))
      \<and> (case footerLabel plot of None \<Rightarrow> True | Some l \<Rightarrow> textIsEmpty (labelText l))
      \<and> (IgnoreLegend \<in> options \<or> (case legend plot of None \<Rightarrow> True | Some l \<Rightarrow> legendIsEmpty l))
      \<and> (\<forall>axisPos. \<forall>a \<in> set (axes plot axisPos). \<not> fst a))"



text \<open>The number of visible axes of the plot at a position.\<close>

definition visibleAxes :: "QwtPlot \<Rightarrow> AxisPosition \<Rightarrow> int" where
  "visibleAxes plot axisPos = int (length (filter fst (axes plot axisPos)))"

subsection \<open>The region allocator in closed form\<close>

text \<open>
  The stacking offset \<^verbatim>\<open>pos\<close> before the slot \<open>i\<close> of a position, the rectangle the
  loop in \<^verbatim>\<open>activate\<close> gives to a slot, and the scale rectangles of a position once
  the loop has passed the slots below \<open>k\<close>.
\<close>

definition stackPos :: "Dimensions \<Rightarrow> AxisPosition \<Rightarrow> nat \<Rightarrow> int" where
  "stackPos d axisPos i = sum_list (take i (dimAxisVector d axisPos))"

definition slotRect :: "Dimensions \<Rightarrow> QRectF \<Rightarrow> AxisPosition \<Rightarrow> nat \<Rightarrow> QRectF" where
  "slotRect d canvas axisPos i =
     (let p = stackPos d axisPos i; dm = dimAxisVector d axisPos ! i
      in normalized
           (case axisPos of
              yLeft \<Rightarrow> setWidth (real_of_int dm)
                         (setX (left canvas - real_of_int p - real_of_int dm) canvas)
            | yRight \<Rightarrow> setWidth (real_of_int dm) (setX (right canvas + real_of_int p) canvas)
            | xBottom \<Rightarrow> setHeight (real_of_int dm) (setY (bottom canvas + real_of_int p) canvas)
            | xTop \<Rightarrow> setHeight (real_of_int dm)
                        (setY (top canvas - real_of_int p - real_of_int dm) canvas)))"

definition allocated :: "Dimensions \<Rightarrow> QRectF \<Rightarrow> AxisPosition \<Rightarrow> nat \<Rightarrow> QRectF list \<Rightarrow> QRectF list" where
  "allocated d canvas axisPos k xs =
     map (\<lambda>j. if j < k \<and> dimAxisVector d axisPos ! j \<noteq> 0 then slotRect d canvas axisPos j
              else xs ! j) [0..<length xs]"

subsection \<open>Predicates on snapshots and dimensions\<close>

text \<open>Every visible axis of the snapshot has its widget.\<close>

definition snapshotOk :: "QwtPlotLayoutData \<Rightarrow> bool" where
  "snapshotOk ld = (\<forall>axisPos i. i < numAxes ld axisPos \<longrightarrow> isVisible (scaleData ld axisPos ! i)
      \<longrightarrow> scaleWidget (scaleData ld axisPos ! i) \<noteq> None)"

definition boundedBy :: "int option \<Rightarrow> int \<Rightarrow> bool" where
  "boundedBy M v = (case M of None \<Rightarrow> True | Some m \<Rightarrow> v \<le> m)"

text \<open>
  The measurements the solver asks for are bounded by \<open>M\<close>: the height for width of
  title and footer, the title height for width of every axis widget and the dimension
  without title of every axis. With \<open>M = None\<close> nothing is asked.
\<close>

definition measuresBounded :: "Options \<Rightarrow> QwtPlotLayoutData \<Rightarrow> int option \<Rightarrow> bool" where
  "measuresBounded options ld M =
     ((\<forall>l w a. boundedBy M (heightForWidth l ld options w a))
      \<and> (\<forall>axisPos i aw n. i < numAxes ld axisPos
            \<longrightarrow> scaleWidget (scaleData ld axisPos ! i) = Some aw
            \<longrightarrow> boundedBy M (dimWithoutTitle (scaleData ld axisPos ! i) + titleHeightForWidth aw n))
      \<and> (\<forall>axisPos i. i < numAxes ld axisPos
            \<longrightarrow> boundedBy M (dimWithoutTitle (scaleData ld axisPos ! i))))"

definition callbacksBounded :: "Options \<Rightarrow> QwtPlotLayoutData \<Rightarrow> int \<Rightarrow> bool" where
  "callbacksBounded options ld B =
     ((\<forall>l w a. heightForWidth l ld options w a \<le> B)
      \<and> (\<forall>axisPos i aw n. i < numAxes ld axisPos
            \<longrightarrow> scaleWidget (scaleData ld axisPos ! i) = Some aw
            \<longrightarrow> titleHeightForWidth aw n \<le> B)
      \<and> (\<forall>axisPos i. i < numAxes ld axisPos
            \<longrightarrow> dimWithoutTitle (scaleData ld axisPos ! i) \<le> B))"

text \<open>The dimensions have a slot for every axis of the snapshot and are bounded by \<open>M\<close>.\<close>

definition dimsInv :: "QwtPlotLayoutData \<Rightarrow> int option \<Rightarrow> Dimensions \<Rightarrow> bool" where
  "dimsInv ld M d =
     (boundedBy M (dimTitle d) \<and> boundedBy M (dimFooter d)
      \<and> (\<forall>axisPos. length (dimAxisVector d axisPos) = numAxes ld axisPos
            \<and> (\<forall>v \<in> set (dimAxisVector d axisPos). boundedBy M v)))"

definition dimsFit :: "QwtPlotLayoutData \<Rightarrow> Dimensions \<Rightarrow> bool" where
  "dimsFit ld d = (\<forall>axisPos. length (dimAxisVector d axisPos) = numAxes ld axisPos)"

text \<open>No dimension of \<open>d'\<close> is smaller than in \<open>d\<close>.\<close>

definition dimsLe :: "Dimensions \<Rightarrow> Dimensions \<Rightarrow> bool" where
  "dimsLe d d' =
     (dimTitle d \<le> dimTitle d' \<and> dimFooter d \<le> dimFooter d'
      \<and> (\<forall>axisPos. list_all2 (\<le>) (dimAxisVector d axisPos) (dimAxisVector d' axisPos)))"

definition dimsTotal :: "Dimensions \<Rightarrow> int" where
  "dimsTotal d = dimTitle d + dimFooter d + dimAxes d yLeft + dimAxes d yRight
     + dimAxes d xBottom + dimAxes d xTop"

text \<open>
  One step of the solver from the state \<open>st\<close> to \<open>st'\<close>: the invariant is kept, no
  dimension shrinks, and either nothing changes or the flag \<^verbatim>\<open>done\<close> is false and a
  dimension has grown.
\<close>

definition grows ::
  "QwtPlotLayoutData \<Rightarrow> int option \<Rightarrow> Dimensions \<times> bool \<Rightarrow> Dimensions \<times> bool \<Rightarrow> bool" where
  "grows ld M st st' =
     (dimsInv ld M (fst st) \<longrightarrow>
        dimsInv ld M (fst st') \<and> dimsLe (fst st) (fst st')
        \<and> (st' = st \<or> (\<not> snd st' \<and> dimsTotal (fst st) < dimsTotal (fst st'))))"

definition totalBound :: "QwtPlotLayoutData \<Rightarrow> int \<Rightarrow> int" where
  "totalBound ld m = m * (2 + int (numAxes ld yLeft) + int (numAxes ld yRight)
      + int (numAxes ld xBottom) + int (numAxes ld xTop))"

subsection \<open>The length for a horizontal axis in the words of the specification\<close>

text \<open>
  The rect width minus the total thickness of the left and right axes, minus the start
  and end border distance hints, plus the minimum of the left axes thickness and the start
  hint minus the left backbone offset, plus the minimum of the right axes thickness and
  the end hint minus the right backbone offset.
\<close>

definition specXAxisLength ::
  "QwtPlotLayoutEngine \<Rightarrow> Options \<Rightarrow> QwtPlotLayoutData \<Rightarrow> QRectF \<Rightarrow> Dimensions \<Rightarrow> ScaleData \<Rightarrow> real" where
  "specXAxisLength eng options ld rect d sd =
     width rect - real_of_int (dimYAxes d) - real_of_int (start sd) - real_of_int (end' sd)
     + real_of_int (min (dimAxes d yLeft) (start sd - backboneOffset eng options ld yLeft))
     + real_of_int (min (dimAxes d yRight) (end' sd - backboneOffset eng options ld yRight))"

subsection \<open>The canvas of an empty plot in the words of the specification\<close>

text \<open>The input rect minus the contents margins of the canvas.\<close>

definition specEmptyCanvasRect :: "QRectF \<Rightarrow> ContentsMargins \<Rightarrow> QRectF" where
  "specEmptyCanvasRect rect m =
     \<lparr>xp = xp rect + real_of_int (marginLeft m), yp = yp rect + real_of_int (marginTop m),
      rw = rw rect - real_of_int (marginLeft m) - real_of_int (marginRight m),
      rh = rh rect - real_of_int (marginTop m) - real_of_int (marginBottom m)\<rparr>"

subsection \<open>Example data\<close>

definition exampleEngine :: QwtPlotLayoutEngine where
  "exampleEngine = \<lparr>d_legendPos = LeftLegend, d_legendRatio = Finite (- 7),
     d_canvasMargin = (\<lambda>_. -9), d_alignCanvas = (\<lambda>_. True), d_spacing = -3\<rparr>"

definition exampleLayoutData :: QwtPlotLayoutData where
  "exampleLayoutData = \<lparr>
     legendData = \<lparr>frameWidth = 0, hScrollExtent = 0, vScrollExtent = 0, hint = \<lparr>wd = 0, ht = 0\<rparr>\<rparr>,
     labelData = (\<lambda>_. \<lparr>ltext = QwtText0, lframeWidth = 0\<rparr>),
     scaleData = (\<lambda>_. []),
     contentsMargins = (\<lambda>_. 0),
     tickOffset = (\<lambda>_. 0),
     numVisibleScales = (\<lambda>_. 0)\<rparr>"

text \<open>Some memory for the constructor to start from.\<close>

definition exampleMemory :: PrivateData where
  "exampleMemory = \<lparr>titleRect = QRectF0, footerRect = QRectF0, legendRect = QRectF0,
     scaleRects = (\<lambda>_. []), canvasRect = QRectF0,
     layoutData = exampleLayoutData, layoutEngine = exampleEngine\<rparr>"

definition exampleLegendData :: LegendData where
  "exampleLegendData = \<lparr>frameWidth = 1, hScrollExtent = 16, vScrollExtent = 20,
     hint = \<lparr>wd = 150, ht = 10\<rparr>\<rparr>"

definition exampleRect :: QRectF where
  "exampleRect = \<lparr>xp = 0, yp = 0, rw = 400, rh = 100\<rparr>"

definition bottomEngine :: QwtPlotLayoutEngine where
  "bottomEngine = \<lparr>d_legendPos = BottomLegend, d_legendRatio = roundDouble (33 / 100),
     d_canvasMargin = (\<lambda>_. 4), d_alignCanvas = (\<lambda>_. False), d_spacing = 5\<rparr>"

definition rightEngine :: QwtPlotLayoutEngine where
  "rightEngine = \<lparr>d_legendPos = RightLegend, d_legendRatio = Finite (1 / 2),
     d_canvasMargin = (\<lambda>_. 4), d_alignCanvas = (\<lambda>_. False), d_spacing = 5\<rparr>"

definition exampleTitleText :: QwtText where
  "exampleTitleText = \<lparr>textString = ''Title'',
     textHeightForWidth = (\<lambda>w. if w < 300 then 40 else 20)\<rparr>"

definition titledLayoutData :: QwtPlotLayoutData where
  "titledLayoutData = exampleLayoutData
     \<lparr>labelData := (\<lambda>_. \<lparr>ltext = exampleTitleText, lframeWidth = 1\<rparr>),
      numVisibleScales := (\<lambda>axisPos. if axisPos = yLeft then 1 else 0)\<rparr>"

text \<open>
  A plot with a title, no footer and no legend; one visible axis at the left, the right
  and the bottom and an invisible one at the top. The title of the bottom axis needs a
  second line below a length of 315.
\<close>

definition exampleLeftAxis :: QwtScaleWidget where
  "exampleLeftAxis = \<lparr>startBorderDist = 6, endBorderDist = 6, margin = 2, dimForLengthMax = 35,
     titleIsEmpty = True, titleHeightForWidth = (\<lambda>_. 0), hasTicks = True, maxTickLength = 8\<rparr>"

definition exampleRightAxis :: QwtScaleWidget where
  "exampleRightAxis = \<lparr>startBorderDist = 6, endBorderDist = 6, margin = 2, dimForLengthMax = 40,
     titleIsEmpty = True, titleHeightForWidth = (\<lambda>_. 0), hasTicks = True, maxTickLength = 8\<rparr>"

definition exampleBottomAxis :: QwtScaleWidget where
  "exampleBottomAxis = \<lparr>startBorderDist = 10, endBorderDist = 10, margin = 2, dimForLengthMax = 45,
     titleIsEmpty = False, titleHeightForWidth = (\<lambda>n. if n < 315 then 30 else 15),
     hasTicks = True, maxTickLength = 8\<rparr>"

definition examplePlot :: QwtPlot where
  "examplePlot = \<lparr>legend = None,
     titleLabel = Some \<lparr>labelText = exampleTitleText, labelFrameWidth = 1\<rparr>,
     footerLabel = None,
     axes = (\<lambda>axisPos. case axisPos of
               yLeft \<Rightarrow> [(True, exampleLeftAxis)]
             | yRight \<Rightarrow> [(True, exampleRightAxis)]
             | xBottom \<Rightarrow> [(True, exampleBottomAxis)]
             | xTop \<Rightarrow> [(False, exampleBottomAxis)]),
     canvasContentsMargins = \<lparr>marginLeft = 1, marginTop = 1, marginRight = 1, marginBottom = 1\<rparr>\<rparr>"

definition examplePlotRect :: QRectF where
  "examplePlotRect = \<lparr>xp = 0, yp = 0, rw = 400, rh = 300\<rparr>"

definition exampleLayout :: PrivateData where
  "exampleLayout = QwtPlotLayout_new exampleMemory"

definition exampleSnapshot :: QwtPlotLayoutData where
  "exampleSnapshot = QwtPlotLayoutData_init examplePlot examplePlotRect exampleLayoutData"

text \<open>
  The dimensions when the first run of the loop body reaches the bottom axis: title, left
  axis and right axis are set.
\<close>

definition exampleDimensions :: Dimensions where
  "exampleDimensions = setDimAxis yRight 0 40 (setDimAxis yLeft 0 35
     ((Dimensions_new exampleSnapshot)\<lparr>dimTitle := 22\<rparr>))"


text \<open>A plot without title, footer and legend whose axes are all invisible.\<close>

definition emptyPlot :: QwtPlot where
  "emptyPlot = \<lparr>legend = None, titleLabel = None, footerLabel = None,
     axes = (\<lambda>_. [(False, exampleLeftAxis)]),
     canvasContentsMargins = \<lparr>marginLeft = 2, marginTop = 2, marginRight = 2, marginBottom = 2\<rparr>\<rparr>"
section \<open>Properties\<close>

subsection \<open>Doubles\<close>

lemmas double_defs = roundDouble_def fromMagnitude_def roundTo_def quantum_def roundHalfEven_def
  binade_def pow2_def compute_bitlen

text \<open>The literal \<^verbatim>\<open>0.33\<close> is the double 5944751508129055 / 2 ^ 54.\<close>

lemma roundDouble_033: "roundDouble (33 / 100) = Finite (5944751508129055 / 18014398509481984)"
  by (simp add: double_defs)

lemma roundDouble_200: "roundDouble 200 = Finite 200"
  by (simp add: double_defs)

lemma toInt_200: "toInt (Finite 200) = Inr 200"
  by (simp add: trunc_def)

text \<open>
  The product is rounded before it is truncated: the double 0.3 is a little less than
  3 / 10, and its exact product with 400 is a little less than 120, but the rounded
  product is 120.
\<close>

lemma mulDouble_rounds:
  "roundDouble (3 / 10) = Finite (5404319552844595 / 18014398509481984)
   \<and> trunc (400 * (5404319552844595 / 18014398509481984)) = 119
   \<and> toInt (mulDouble 400 (Finite (5404319552844595 / 18014398509481984))) = Inr 120"
  by (simp add: double_defs trunc_def)

subsection \<open>The legend\<close>

text \<open>
  Claim C4, as the specification states it, fails for a legend at the bottom: with scroll
  bars ignored the thickness is not the minimum of the hint height 10 and the rect height
  100 times the ratio 0.33, but the vertical scroll extent 20.
\<close>

theorem layoutLegend_thickness_counterexample:
  "layoutLegend_dim bottomEngine {IgnoreScrollbars} exampleLegendData exampleRect = Inr 20
   \<and> map_sum id height (layoutLegend bottomEngine {IgnoreScrollbars} exampleLegendData exampleRect)
       = Inr 20
   \<and> specLegendThickness bottomEngine {IgnoreScrollbars} exampleLegendData exampleRect = Inr 10
   \<and> toInt (mulDouble (height exampleRect) (d_legendRatio bottomEngine)) = Inr 33
   \<and> min (ht (hint exampleLegendData)) 33 = 10"
  by (simp add: layoutLegend_dim_def layoutLegend_def specLegendThickness_def bottomEngine_def
        exampleLegendData_def exampleRect_def roundDouble_033 bindF_def)
     (simp add: double_defs trunc_def height_def width_def setHeight_def
        setY_def setTop_def bottom_def Let_def)

text \<open>
  Claim C4, amended. The rect span (the width for a legend at the left or right, the
  height for one at the top or bottom) is multiplied with the legend ratio, the product
  is rounded to a double and converted to \<^verbatim>\<open>int\<close>; where this conversion is undefined
  \<open>layoutLegend\<close> has no result. For a legend at the left or right the thickness is the
  minimum of the hint width and the converted product, plus the horizontal scroll extent
  when scroll bars are not ignored and the hint height exceeds the rect height. For a
  legend at the top or bottom it is the minimum of the hint height and the converted
  product, but at least the vertical scroll extent. The legend rectangle has this
  thickness. For a legend at the right with hint width 150, ratio 0.5 and rect width 400,
  whose hint height fits the rect, the width is 150.
\<close>

theorem layoutLegend_thickness:
  "layoutLegend_dim eng options ld rect =
     (if d_legendPos eng = LeftLegend \<or> d_legendPos eng = RightLegend
      then map_sum id
             (\<lambda>n. min (wd (hint ld)) n
                  + (if IgnoreScrollbars \<notin> options \<and> real_of_int (ht (hint ld)) > height rect
                     then hScrollExtent ld else 0))
             (toInt (mulDouble (width rect) (d_legendRatio eng)))
      else map_sum id (\<lambda>n. max (min (ht (hint ld)) n) (vScrollExtent ld))
             (toInt (mulDouble (height rect) (d_legendRatio eng))))
   \<and> map_sum id
         (\<lambda>lr. if d_legendPos eng = LeftLegend \<or> d_legendPos eng = RightLegend
               then width lr else height lr)
         (layoutLegend eng options ld rect)
       = map_sum id real_of_int (layoutLegend_dim eng options ld rect)
   \<and> (d_legendPos eng = RightLegend \<and> wd (hint ld) = 150 \<and> d_legendRatio eng = Finite (1 / 2)
        \<and> width rect = 400 \<and> real_of_int (ht (hint ld)) \<le> height rect
      \<longrightarrow> layoutLegend_dim eng options ld rect = Inr 150
          \<and> map_sum id width (layoutLegend eng options ld rect) = Inr 150)"
proof (intro conjI impI)
  show "layoutLegend_dim eng options ld rect =
     (if d_legendPos eng = LeftLegend \<or> d_legendPos eng = RightLegend
      then map_sum id
             (\<lambda>n. min (wd (hint ld)) n
                  + (if IgnoreScrollbars \<notin> options \<and> real_of_int (ht (hint ld)) > height rect
                     then hScrollExtent ld else 0))
             (toInt (mulDouble (width rect) (d_legendRatio eng)))
      else map_sum id (\<lambda>n. max (min (ht (hint ld)) n) (vScrollExtent ld))
             (toInt (mulDouble (height rect) (d_legendRatio eng))))"
    by (cases "toInt (mulDouble (width rect) (d_legendRatio eng))";
        cases "toInt (mulDouble (height rect) (d_legendRatio eng))")
       (simp_all add: layoutLegend_dim_def bindF_def Let_def)
  show "map_sum id
         (\<lambda>lr. if d_legendPos eng = LeftLegend \<or> d_legendPos eng = RightLegend
               then width lr else height lr)
         (layoutLegend eng options ld rect)
       = map_sum id real_of_int (layoutLegend_dim eng options ld rect)"
    by (cases "layoutLegend_dim eng options ld rect"; cases "d_legendPos eng")
       (simp_all add: layoutLegend_def bindF_def Let_def height_def width_def
          setHeight_def setWidth_def setX_def setY_def setTop_def setLeft_def)
next
  assume a: "d_legendPos eng = RightLegend \<and> wd (hint ld) = 150 \<and> d_legendRatio eng = Finite (1 / 2)
        \<and> width rect = 400 \<and> real_of_int (ht (hint ld)) \<le> height rect"
  then show d: "layoutLegend_dim eng options ld rect = Inr 150"
    by (simp add: layoutLegend_dim_def bindF_def Let_def roundDouble_200 trunc_def)
  show "map_sum id width (layoutLegend eng options ld rect) = Inr 150"
    using a by (simp add: layoutLegend_def d bindF_def width_def setWidth_def setX_def setLeft_def)
qed

theorem layoutLegend_thickness_witness:
  "layoutLegend_dim rightEngine {} exampleLegendData exampleRect = Inr 150
   \<and> layoutLegend rightEngine {} exampleLegendData exampleRect
       = Inr \<lparr>xp = 250, yp = 0, rw = 150, rh = 100\<rparr>
   \<and> toInt (mulDouble (width exampleRect) (d_legendRatio rightEngine)) = Inr 200
   \<and> layoutLegend (rightEngine\<lparr>d_legendRatio := NaN\<rparr>) {} exampleLegendData exampleRect
       = Inl IntConversion"
  using layoutLegend_thickness [of rightEngine "{}" exampleLegendData exampleRect]
  by (simp add: rightEngine_def exampleLegendData_def exampleRect_def width_def height_def
        roundDouble_200 toInt_200)
     (simp add: layoutLegend_def layoutLegend_dim_def bindF_def rightEngine_def
        exampleLegendData_def exampleRect_def width_def height_def roundDouble_200 trunc_def
        setWidth_def setX_def setLeft_def right_def Let_def)

text \<open>
  Claim C8. \<open>alignLegend\<close> gives a legend at the top or bottom the horizontal extent of
  the canvas exactly when the hint width of the legend is smaller than the canvas width,
  and a legend at the left or right the vertical extent of the canvas exactly when the
  hint height is smaller than the canvas height; otherwise the legend rectangle is
  returned as it is.
\<close>

theorem alignLegend_stretch:
  "alignLegend eng ld canvas lrect =
     (if d_legendPos eng = TopLegend \<or> d_legendPos eng = BottomLegend
      then (if real_of_int (wd (hint ld)) < width canvas
            then lrect\<lparr>xp := left canvas, rw := width canvas\<rparr>
            else lrect)
      else (if real_of_int (ht (hint ld)) < height canvas
            then lrect\<lparr>yp := top canvas, rh := height canvas\<rparr>
            else lrect))"
  by (auto simp add: alignLegend_def setWidth_def setHeight_def setX_def setY_def
        setLeft_def setTop_def left_def top_def Let_def)

theorem alignLegend_stretch_witness:
  "alignLegend bottomEngine exampleLegendData \<lparr>xp = 50, yp = 10, rw = 300, rh = 60\<rparr>
       \<lparr>xp = 0, yp = 80, rw = 400, rh = 20\<rparr> = \<lparr>xp = 50, yp = 80, rw = 300, rh = 20\<rparr>
   \<and> alignLegend rightEngine exampleLegendData \<lparr>xp = 50, yp = 10, rw = 300, rh = 60\<rparr>
       \<lparr>xp = 250, yp = 0, rw = 150, rh = 100\<rparr> = \<lparr>xp = 250, yp = 10, rw = 150, rh = 60\<rparr>
   \<and> alignLegend bottomEngine exampleLegendData \<lparr>xp = 50, yp = 10, rw = 120, rh = 60\<rparr>
       \<lparr>xp = 0, yp = 80, rw = 400, rh = 20\<rparr> = \<lparr>xp = 0, yp = 80, rw = 400, rh = 20\<rparr>"
  using alignLegend_stretch [of bottomEngine exampleLegendData
          "\<lparr>xp = 50, yp = 10, rw = 300, rh = 60\<rparr>" "\<lparr>xp = 0, yp = 80, rw = 400, rh = 20\<rparr>"]
        alignLegend_stretch [of rightEngine exampleLegendData
          "\<lparr>xp = 50, yp = 10, rw = 300, rh = 60\<rparr>" "\<lparr>xp = 250, yp = 0, rw = 150, rh = 100\<rparr>"]
        alignLegend_stretch [of bottomEngine exampleLegendData
          "\<lparr>xp = 50, yp = 10, rw = 120, rh = 60\<rparr>" "\<lparr>xp = 0, yp = 80, rw = 400, rh = 20\<rparr>"]
  by (simp add: bottomEngine_def rightEngine_def exampleLegendData_def width_def height_def
       left_def top_def)

subsection \<open>The configuration\<close>

lemma legendRatio_setLegendPosition:
  "legendRatio (setLegendPosition lpos r s) =
     (if gtDouble r 1 then Finite 1
      else if leDouble r 0
      then (if lpos = TopLegend \<or> lpos = BottomLegend then roundDouble (33 / 100) else Finite (1 / 2))
      else r)"
  by (cases lpos) (simp_all add: setLegendPosition_def legendRatio_def Let_def)

lemma spacing_setLegendPosition: "spacing (setLegendPosition lpos r s) = spacing s"
  by (cases lpos) (simp_all add: setLegendPosition_def spacing_def Let_def)

lemma configOk_setLegendPosition:
  "r \<noteq> NaN \<Longrightarrow> 0 \<le> spacing s \<Longrightarrow> configOk (setLegendPosition lpos r s)"
  by (cases r)
     (simp_all add: configOk_def legendRatio_setLegendPosition spacing_setLegendPosition
        roundDouble_033)

lemma configOk_perform: "configOk s \<Longrightarrow> \<not> passesNaN c \<Longrightarrow> configOk (perform c s)"
proof (cases c)
  case (SetLegendPosition p r)
  assume "configOk s" "\<not> passesNaN c"
  then show ?thesis using SetLegendPosition configOk_setLegendPosition [of r s p]
    by (simp add: configOk_def)
next
  case (SetLegendPosition1 p)
  assume "configOk s" "\<not> passesNaN c"
  then show ?thesis using SetLegendPosition1 configOk_setLegendPosition [of "Finite 0" s p]
    by (simp add: configOk_def setLegendPosition1_def)
next
  case (SetLegendRatio r)
  assume "configOk s" "\<not> passesNaN c"
  then show ?thesis using SetLegendRatio configOk_setLegendPosition [of r s "legendPosition s"]
    by (simp add: configOk_def setLegendRatio_def)
qed (auto simp add: configOk_def legendRatio_def spacing_def setCanvasMargin_def Let_def
       setAlignCanvasToScales_def setAlignCanvasToScale_def setSpacing_def setTitleRect_def
       setFooterRect_def setLegendRect_def setScaleRect_def setCanvasRect_def invalidate_def)

lemma configOk_new: "configOk (QwtPlotLayout_new mem)"
  by (simp add: QwtPlotLayout_new_def configOk_def legendRatio_def spacing_def invalidate_def
       setAlignCanvasToScales_def setCanvasMargin_def setLegendPosition1_def
       setLegendPosition_def PrivateData_new_def Let_def roundDouble_033)

lemma configOk_calls:
  "configOk s \<Longrightarrow> \<forall>c \<in> set cs. \<not> passesNaN c \<Longrightarrow> configOk (calls cs s)"
  unfolding calls_def
  by (induction cs arbitrary: s) (simp_all add: configOk_perform)

text \<open>
  As long as no call hands NaN to the layout, the invariant holds after the constructor
  and any sequence of setter calls: a ratio above 1 (also the positive infinity) is stored
  as 1, a ratio that is not positive (also the negative infinity) as the default, which
  is the double 0.33 for a legend at the top or bottom and 0.5 for one at the left or
  right, and \<open>setSpacing\<close> stores the maximum of 0 and the spacing.
\<close>

lemma config_invariant_without_NaN:
  assumes "\<forall>c \<in> set cs. \<not> passesNaN c"
  shows "configOk (calls cs (QwtPlotLayout_new mem))"
    and "legendRatio (setLegendRatio r s) =
       (if gtDouble r 1 then Finite 1
        else if leDouble r 0
        then (if legendPosition s = TopLegend \<or> legendPosition s = BottomLegend
              then roundDouble (33 / 100) else Finite (1 / 2))
        else r)"
    and "spacing (setSpacing n s) = max 0 n"
  using configOk_calls [OF configOk_new assms, of mem]
  by (simp_all add: legendRatio_setLegendPosition setLegendRatio_def spacing_def setSpacing_def)

text \<open>
  Claim C9 fails in the code for the ratio NaN. The two comparisons of
  \<open>setLegendPosition\<close>, \<^verbatim>\<open>ratio > 1.0\<close> and \<^verbatim>\<open>ratio <= 0.0\<close>, are both false for NaN, so
  \<open>setLegendPosition\<close> and \<open>setLegendRatio\<close> store NaN as the legend ratio: after the
  constructor the invariant holds, after one call of \<open>setLegendRatio\<close> with NaN the stored
  ratio is not above 0 and the invariant is broken. The documentation of both functions
  limits the ratio to ]0.0 .. 1.0].
\<close>

theorem setLegendRatio_NaN:
  "configOk (QwtPlotLayout_new exampleMemory)
   \<and> legendRatio (setLegendRatio NaN (QwtPlotLayout_new exampleMemory)) = NaN
   \<and> legendRatio (setLegendPosition RightLegend NaN (QwtPlotLayout_new exampleMemory)) = NaN
   \<and> gtDouble (legendRatio (setLegendRatio NaN (QwtPlotLayout_new exampleMemory))) 0 = False
   \<and> configOk (calls [SetLegendRatio NaN] (QwtPlotLayout_new exampleMemory)) = False"
  using configOk_new [of exampleMemory]
  by (simp add: calls_def configOk_def legendRatio_setLegendPosition setLegendRatio_def)

subsection \<open>The accessors by axis\<close>

text \<open>
  Claim C10. For an axis identifier whose position is outside 0..3 or whose index is
  outside the vector of its position, \<open>scaleRect\<close> returns the null rectangle and
  \<open>setScaleRect\<close> leaves the state as it is; for a position outside 0..3,
  \<open>canvasMargin\<close> returns 0 and \<open>alignCanvasToScale\<close> returns false.
\<close>

theorem accessors_total:
  "(pos a < 0 \<or> NumAxisPositions \<le> pos a \<or> idn a < 0
      \<or> int (length (scaleRects s (toAxisPos (pos a)))) \<le> idn a
     \<longrightarrow> scaleRect s a = QRectF0 \<and> setScaleRect a rect s = s)
   \<and> (p < 0 \<or> NumAxisPositions \<le> p
     \<longrightarrow> canvasMargin s p = 0 \<and> alignCanvasToScale s p = False)"
  by (auto simp add: scaleRect_def setScaleRect_def canvasMargin_def alignCanvasToScale_def Let_def)

theorem accessors_total_witness:
  "scaleRect (QwtPlotLayout_new exampleMemory) \<lparr>pos = 1, idn = 1\<rparr> = QRectF0
   \<and> setScaleRect \<lparr>pos = 1, idn = 1\<rparr> \<lparr>xp = 1, yp = 2, rw = 3, rh = 4\<rparr> (QwtPlotLayout_new exampleMemory)
       = QwtPlotLayout_new exampleMemory
   \<and> canvasMargin (QwtPlotLayout_new exampleMemory) 4 = 0
   \<and> alignCanvasToScale (QwtPlotLayout_new exampleMemory) 4 = False"
  using accessors_total [of "\<lparr>pos = 1, idn = 1\<rparr>" "QwtPlotLayout_new exampleMemory"
      "\<lparr>xp = 1, yp = 2, rw = 3, rh = 4\<rparr>" "4"]
  by (simp add: NumAxisPositions_def toAxisPos_def QwtPlotLayout_new_def invalidate_def resize_def)

subsection \<open>The dimension solver\<close>


lemma dimsLe_refl: "dimsLe d d"
  by (simp add: dimsLe_def list_all2_refl)

lemma list_all2_le_trans:
  "list_all2 (\<le>) xs ys \<Longrightarrow> list_all2 (\<le>) ys zs \<Longrightarrow> list_all2 (\<le>) xs (zs :: int list)"
  by (rule list_all2_trans [of "(\<le>)" "(\<le>)" "(\<le>)"]) auto

lemma dimsLe_trans: "dimsLe a b \<Longrightarrow> dimsLe b c \<Longrightarrow> dimsLe a c"
  unfolding dimsLe_def
  by (auto intro: list_all2_le_trans)

lemma grows_refl: "grows ld M st st"
  by (simp add: grows_def dimsLe_refl)

lemma grows_trans:
  assumes ab: "grows ld M a b" and bc: "grows ld M b c"
  shows "grows ld M a c"
  unfolding grows_def
proof
  assume ia: "dimsInv ld M (fst a)"
  then have ib: "dimsInv ld M (fst b)" and lab: "dimsLe (fst a) (fst b)"
    and pab: "b = a \<or> (\<not> snd b \<and> dimsTotal (fst a) < dimsTotal (fst b))"
    using ab by (simp_all add: grows_def)
  from ib have ic: "dimsInv ld M (fst c)" and lbc: "dimsLe (fst b) (fst c)"
    and pbc: "c = b \<or> (\<not> snd c \<and> dimsTotal (fst b) < dimsTotal (fst c))"
    using bc by (simp_all add: grows_def)
  have "c = a \<or> (\<not> snd c \<and> dimsTotal (fst a) < dimsTotal (fst c))"
    using pab pbc by auto
  then show "dimsInv ld M (fst c) \<and> dimsLe (fst a) (fst c)
      \<and> (c = a \<or> (\<not> snd c \<and> dimsTotal (fst a) < dimsTotal (fst c)))"
    using ic dimsLe_trans [OF lab lbc] by simp
qed

lemma foldF_rel:
  assumes step: "\<And>x s s'. x \<in> set xs \<Longrightarrow> f x s = Inr s' \<Longrightarrow> R s s'"
    and refl: "\<And>s. R s s"
    and trans: "\<And>a b c. R a b \<Longrightarrow> R b c \<Longrightarrow> R a c"
  shows "foldF f xs s = Inr s' \<Longrightarrow> R s s'"
  using step
proof (induction xs arbitrary: s)
  case Nil
  then show ?case using refl by simp
next
  case (Cons x xs)
  from Cons.prems(1) obtain s1 where s1: "f x s = Inr s1" and rest: "foldF f xs s1 = Inr s'"
    by (auto split: sum.splits)
  have "R s s1" using Cons.prems(2) [of x s s1] s1 by simp
  moreover have "R s1 s'"
  proof (rule Cons.IH [OF rest])
    fix y t t'
    assume "y \<in> set xs" and "f y t = Inr t'"
    then show "R t t'" using Cons.prems(2) [of y t t'] by simp
  qed
  ultimately show ?case using trans by blast
qed

lemma foldF_ok:
  assumes "\<And>x s. x \<in> set xs \<Longrightarrow> \<exists>s'. f x s = Inr s'"
  shows "\<exists>s'. foldF f xs s = Inr s'"
  using assms
proof (induction xs arbitrary: s)
  case Nil
  then show ?case by simp
next
  case (Cons x xs)
  then obtain s1 where "f x s = Inr s1" by (meson list.set_intros(1))
  then show ?case using Cons by simp
qed

lemma sum_list_update_int:
  "i < length xs \<Longrightarrow> sum_list (xs[i := v]) = sum_list xs + v - (xs ! i :: int)"
  by (induction xs arbitrary: i) (auto split: nat.splits)

lemma dimsTotal_setDimAxis:
  "i < length (dimAxisVector d axisPos) \<Longrightarrow>
   dimsTotal (setDimAxis axisPos i v d) = dimsTotal d + v - dimAxis d axisPos i"
  by (cases axisPos) (simp_all add: dimsTotal_def setDimAxis_def dimAxes_def dimAxis_def sum_list_update_int)

lemma list_all2_le_update:
  "xs ! i \<le> v \<Longrightarrow> list_all2 (\<le>) xs (xs[i := (v :: int)])"
  by (cases "i < length xs") (auto simp add: list_all2_conv_all_nth nth_list_update list_all2_refl)

lemma dimsLe_setDimAxis:
  "dimAxis d axisPos i \<le> v \<Longrightarrow> dimsLe d (setDimAxis axisPos i v d)"
  unfolding dimsLe_def setDimAxis_def dimAxis_def
  by (simp add: list_all2_le_update list_all2_refl)

lemma dimsInv_setDimAxis:
  "dimsInv ld M d \<Longrightarrow> boundedBy M v \<Longrightarrow> dimsInv ld M (setDimAxis axisPos i v d)"
  unfolding dimsInv_def setDimAxis_def
  by (auto dest: set_update_subset_insert [THEN subsetD])

lemma layoutLabel_grows:
  assumes "measuresBounded options ld M"
  shows "grows ld M st (layoutLabel l options ld rect st)"
proof -
  have b: "\<And>w a. boundedBy M (heightForWidth l ld options w a)"
    using assms by (simp add: measuresBounded_def)
  show ?thesis
    using b [of "width rect" "dimYAxes (fst st)"]
    by (cases l; cases st)
       (auto simp add: grows_def layoutLabel_def Let_def dimsInv_def dimsLe_def dimsTotal_def
          dimAxes_def list_all2_refl)
qed

lemma layoutAxis_grows:
  assumes mb: "measuresBounded options ld M"
    and i: "i < numAxes ld axisPos"
    and res: "layoutAxis eng options ld rect axisPos i st = Inr st'"
  shows "grows ld M st st'"
proof (cases "isVisible (scaleData ld axisPos ! i)")
  case False
  then show ?thesis using res by (simp add: layoutAxis_def grows_refl)
next
  case True
  then obtain aw where aw: "scaleWidget (scaleData ld axisPos ! i) = Some aw"
    using res by (cases "scaleWidget (scaleData ld axisPos ! i)") (simp_all add: layoutAxis_def Let_def)
  define dm where "dm = (if \<not> titleIsEmpty aw
       then dimWithoutTitle (scaleData ld axisPos ! i) + titleHeightForWidth aw
              (qFloor (layoutDimensions_length eng options ld rect (fst st) axisPos (scaleData ld axisPos ! i)))
       else dimWithoutTitle (scaleData ld axisPos ! i))"
  have bd: "boundedBy M dm"
    using mb i aw unfolding measuresBounded_def dm_def by auto
  show ?thesis
  proof (cases "dm > dimAxis (fst st) axisPos i")
    case False
    then have "st' = st" using res True aw by (simp add: layoutAxis_def dm_def Let_def)
    then show ?thesis by (simp add: grows_refl)
  next
    case gt: True
    then have st': "st' = (setDimAxis axisPos i dm (fst st), False)"
      using res True aw by (simp add: layoutAxis_def dm_def Let_def)
    show ?thesis
      unfolding grows_def
    proof
      assume inv: "dimsInv ld M (fst st)"
      then have len: "i < length (dimAxisVector (fst st) axisPos)"
        using i by (simp add: dimsInv_def)
      show "dimsInv ld M (fst st') \<and> dimsLe (fst st) (fst st') \<and>
            (st' = st \<or> \<not> snd st' \<and> dimsTotal (fst st) < dimsTotal (fst st'))"
        using gt inv bd len
        by (simp add: st' dimsInv_setDimAxis dimsLe_setDimAxis dimsTotal_setDimAxis)
    qed
  qed
qed

lemma layoutAxis_ok:
  assumes ok: "snapshotOk ld" and i: "i < numAxes ld axisPos"
  shows "\<exists>st'. layoutAxis eng options ld rect axisPos i st = Inr st'"
proof (cases "isVisible (scaleData ld axisPos ! i)")
  case False
  then show ?thesis by (simp add: layoutAxis_def)
next
  case True
  then obtain aw where "scaleWidget (scaleData ld axisPos ! i) = Some aw"
    using ok i unfolding snapshotOk_def by blast
  then show ?thesis using True by (auto simp add: layoutAxis_def Let_def)
qed

lemma layoutIteration_grows:
  assumes mb: "measuresBounded options ld M"
    and res: "layoutIteration eng options ld rect d = Inr st'"
  shows "grows ld M (d, True) st'"
proof -
  let ?st2 = "layoutLabel Footer options ld rect (layoutLabel Title options ld rect (d, True))"
  have g2: "grows ld M (d, True) ?st2"
    using grows_trans [OF layoutLabel_grows [OF mb] layoutLabel_grows [OF mb]] .
  have inner: "\<And>axisPos s s'. foldF (layoutAxis eng options ld rect axisPos) [0..<numAxes ld axisPos] s = Inr s'
      \<Longrightarrow> grows ld M s s'"
  proof -
    fix axisPos s s'
    assume r: "foldF (layoutAxis eng options ld rect axisPos) [0..<numAxes ld axisPos] s = Inr s'"
    show "grows ld M s s'"
      by (rule foldF_rel [OF _ grows_refl grows_trans r])
         (auto intro: layoutAxis_grows [OF mb])
  qed
  have "grows ld M ?st2 st'"
    by (rule foldF_rel [OF _ grows_refl grows_trans res [unfolded layoutIteration_def]])
       (auto intro: inner)
  then show ?thesis using g2 grows_trans by blast
qed

lemma layoutIteration_ok:
  assumes "snapshotOk ld"
  shows "\<exists>st'. layoutIteration eng options ld rect d = Inr st'"
  unfolding layoutIteration_def
proof (rule foldF_ok)
  fix axisPos s
  show "\<exists>s'. foldF (layoutAxis eng options ld rect axisPos) [0..<numAxes ld axisPos] s = Inr s'"
  proof (rule foldF_ok)
    fix i t
    assume "i \<in> set [0..<numAxes ld axisPos]"
    then have "i < numAxes ld axisPos" by simp
    then show "\<exists>s'. layoutAxis eng options ld rect axisPos i t = Inr s'"
      by (rule layoutAxis_ok [OF assms])
  qed
qed

lemma sum_list_bounded: "(\<forall>v \<in> set xs. v \<le> (m :: int)) \<Longrightarrow> sum_list xs \<le> m * int (length xs)"
  by (induction xs) (auto simp add: algebra_simps)

lemma dimsTotal_bounded:
  assumes "dimsInv ld (Some m) d"
  shows "dimsTotal d \<le> totalBound ld m"
proof -
  have a: "\<And>p. dimAxes d p \<le> m * int (numAxes ld p)"
  proof -
    fix p
    have "\<forall>v \<in> set (dimAxisVector d p). v \<le> m" and "length (dimAxisVector d p) = numAxes ld p"
      using assms by (auto simp add: dimsInv_def boundedBy_def)
    then show "dimAxes d p \<le> m * int (numAxes ld p)"
      using sum_list_bounded [of "dimAxisVector d p" m] by (simp add: dimAxes_def)
  qed
  have "dimTitle d \<le> m" and "dimFooter d \<le> m"
    using assms by (simp_all add: dimsInv_def boundedBy_def)
  then show ?thesis
    using a [of yLeft] a [of yRight] a [of xBottom] a [of xTop]
    by (simp add: dimsTotal_def totalBound_def algebra_simps)
qed

lemma layoutLoop_terminates:
  assumes ok: "snapshotOk ld" and mb: "measuresBounded options ld (Some m)"
  shows "dimsInv ld (Some m) d \<Longrightarrow>
         \<exists>d'. layoutLoop eng options ld rect d = Some (Inr d')
            \<and> layoutIteration eng options ld rect d' = Inr (d', True) \<and> dimsLe d d'"
proof (induction "nat (totalBound ld m - dimsTotal d)" arbitrary: d rule: less_induct)
  case less
  obtain st' where it: "layoutIteration eng options ld rect d = Inr st'"
    using layoutIteration_ok [OF ok] by blast
  have g: "grows ld (Some m) (d, True) st'"
    by (rule layoutIteration_grows [OF mb it])
  with less.prems have inv': "dimsInv ld (Some m) (fst st')" and le: "dimsLe d (fst st')"
    and pr: "st' = (d, True) \<or> (\<not> snd st' \<and> dimsTotal d < dimsTotal (fst st'))"
    by (simp_all add: grows_def)
  show ?case
  proof (cases "snd st'")
    case True
    with pr have eq: "st' = (d, True)" by simp
    have "layoutLoop eng options ld rect d = Some (Inr d)"
      using it eq by (subst layoutLoop.simps) simp
    then show ?thesis using it eq by (auto simp add: dimsLe_refl)
  next
    case False
    with pr have lt: "dimsTotal d < dimsTotal (fst st')" by auto
    have "dimsTotal (fst st') \<le> totalBound ld m" by (rule dimsTotal_bounded [OF inv'])
    with lt have "nat (totalBound ld m - dimsTotal (fst st')) < nat (totalBound ld m - dimsTotal d)"
      by simp
    from less.hyps [OF this inv'] obtain d' where
      r: "layoutLoop eng options ld rect (fst st') = Some (Inr d')"
      and fp: "layoutIteration eng options ld rect d' = Inr (d', True)"
      and le': "dimsLe (fst st') d'" by blast
    have "layoutLoop eng options ld rect d = layoutLoop eng options ld rect (fst st')"
      using it False by (subst layoutLoop.simps) simp
    then show ?thesis using r fp dimsLe_trans [OF le le'] by simp
  qed
qed

lemma dimsInv_new: "0 \<le> m \<Longrightarrow> dimsInv ld (Some m) (Dimensions_new ld)"
  by (simp add: dimsInv_def Dimensions_new_def boundedBy_def)

lemma dimsInv_None_new: "dimsInv ld None (Dimensions_new ld)"
  by (simp add: dimsInv_def Dimensions_new_def boundedBy_def)

lemma measuresBounded_None: "measuresBounded options ld None"
  by (simp add: measuresBounded_def boundedBy_def)

lemma le_max_double: "(v::int) \<le> B \<Longrightarrow> v \<le> max 0 (2 * B)"
  by (simp add: max_def)

lemma le_max_double2: "(u::int) \<le> B \<Longrightarrow> v \<le> B \<Longrightarrow> u + v \<le> max 0 (2 * B)"
  by (simp add: max_def)

lemma callbacksBounded_measures:
  assumes cb: "callbacksBounded options ld B"
  shows "measuresBounded options ld (Some (max 0 (2 * B)))"
  unfolding measuresBounded_def boundedBy_def option.case
proof (intro conjI allI impI)
  fix l w a
  show "heightForWidth l ld options w a \<le> max 0 (2 * B)"
    using cb by (intro le_max_double) (simp add: callbacksBounded_def)
next
  fix axisPos i aw n
  assume i: "i < numAxes ld axisPos" and aw: "scaleWidget (scaleData ld axisPos ! i) = Some aw"
  have "titleHeightForWidth aw n \<le> B" and "dimWithoutTitle (scaleData ld axisPos ! i) \<le> B"
    using cb i aw unfolding callbacksBounded_def by blast+
  then show "dimWithoutTitle (scaleData ld axisPos ! i) + titleHeightForWidth aw n \<le> max 0 (2 * B)"
    by (intro le_max_double2)
next
  fix axisPos i
  assume "i < numAxes ld axisPos"
  then have "dimWithoutTitle (scaleData ld axisPos ! i) \<le> B"
    using cb unfolding callbacksBounded_def by blast
  then show "dimWithoutTitle (scaleData ld axisPos ! i) \<le> max 0 (2 * B)"
    by (rule le_max_double)
qed

lemma dimsInv_None: "dimsInv ld None d = dimsFit ld d"
  by (simp add: dimsInv_def dimsFit_def boundedBy_def)

lemma layoutIteration_monotone:
  assumes fit: "dimsFit ld d0" and it: "layoutIteration eng options ld rect d0 = Inr (d1, dn)"
  shows "dimsFit ld d1 \<and> dimsLe d0 d1 \<and> (if dn then d1 = d0 else dimsTotal d0 < dimsTotal d1)"
proof -
  have "grows ld None (d0, True) (d1, dn)"
    by (rule layoutIteration_grows [OF measuresBounded_None it])
  then show ?thesis
    using fit by (auto simp add: grows_def dimsInv_None)
qed

lemma layoutDimensions_returns:
  assumes ok: "snapshotOk ld" and cb: "callbacksBounded options ld B"
  shows "\<exists>d. layoutDimensions eng options ld rect = Some (Inr d)
          \<and> layoutIteration eng options ld rect d = Inr (d, True)
          \<and> dimsLe (Dimensions_new ld) d"
proof -
  have mb: "measuresBounded options ld (Some (max 0 (2 * B)))"
    using cb by (rule callbacksBounded_measures)
  have inv: "dimsInv ld (Some (max 0 (2 * B))) (Dimensions_new ld)"
    by (rule dimsInv_new) simp
  show ?thesis
    unfolding layoutDimensions_def
    by (rule layoutLoop_terminates [OF ok mb inv])
qed

text \<open>
  Claim C1. In a run of the loop body of \<open>layoutDimensions\<close> no dimension shrinks: the
  title, the footer and every axis dimension after the run are at least what they were
  before, nothing has changed when the run ends with \<^verbatim>\<open>done\<close> set, and the sum of the
  dimensions has grown otherwise. For a snapshot whose visible axes have their widgets and
  whose measurements (height for width of title and footer, title height for width and
  dimension without title of the axes) are bounded by \<open>B\<close>, the loop returns: it reaches
  dimensions that a further run leaves as they are.
\<close>

theorem layoutDimensions_monotone_terminates:
  "(\<forall>d0 d1 dn. dimsFit ld d0 \<longrightarrow> layoutIteration eng options ld rect d0 = Inr (d1, dn)
       \<longrightarrow> dimsFit ld d1 \<and> dimsLe d0 d1
           \<and> (if dn then d1 = d0 else dimsTotal d0 < dimsTotal d1))
   \<and> (snapshotOk ld \<and> callbacksBounded options ld B
       \<longrightarrow> (\<exists>d. layoutDimensions eng options ld rect = Some (Inr d)
              \<and> layoutIteration eng options ld rect d = Inr (d, True)
              \<and> dimsLe (Dimensions_new ld) d))"
  using layoutIteration_monotone [of ld _ eng options rect] layoutDimensions_returns [of ld options B eng rect]
  by blast

lemmas example_defs = examplePlot_def examplePlotRect_def exampleLayoutData_def exampleMemory_def
  exampleEngine_def exampleLeftAxis_def exampleRightAxis_def exampleBottomAxis_def exampleTitleText_def
  exampleLayout_def exampleSnapshot_def

lemmas init_defs = QwtPlotLayoutData_init_def initPosition_def initScales_def initAxis_def axisPositions_def
  axesCount_def resize_def ScaleData_init_def ScaleData0_def LabelData_init_def LegendData_init_def
  CanvasData_init_def QWIDGETSIZE_MAX_def

lemmas new_defs = QwtPlotLayout_new_def invalidate_def
       setAlignCanvasToScales_def setCanvasMargin_def setLegendPosition1_def
       setLegendPosition_def PrivateData_new_def

lemmas solver_defs = layoutDimensions_def layoutIteration_def layoutLabel_def layoutAxis_def
  layoutDimensions_length_def heightForWidth_def hasSymmetricYAxes_def numAxes_def Dimensions_new_def
  dimAxis_def setDimAxis_def dimAxes_def dimYAxes_def dimXAxes_def backboneOffset_def
  qwtIsXAxis_def qFloor_def qCeil_def textIsEmpty_def width_def height_def QwtText0_def

lemma exampleSnapshot_ok: "snapshotOk exampleSnapshot"
  unfolding snapshotOk_def
proof (intro allI impI)
  fix axisPos i
  assume "i < numAxes exampleSnapshot axisPos" and "isVisible (scaleData exampleSnapshot axisPos ! i)"
  then show "scaleWidget (scaleData exampleSnapshot axisPos ! i) \<noteq> None"
    by (cases axisPos) (simp_all add: numAxes_def init_defs example_defs Let_def)
qed

lemma exampleSnapshot_bounded: "callbacksBounded {} exampleSnapshot 42"
  unfolding callbacksBounded_def
proof (intro conjI allI impI)
  fix l w a
  show "heightForWidth l exampleSnapshot {} w a \<le> 42"
    by (cases l) (simp_all add: heightForWidth_def init_defs example_defs Let_def textIsEmpty_def
          QwtText0_def qCeil_def hasSymmetricYAxes_def)
next
  fix axisPos i aw n
  assume "i < numAxes exampleSnapshot axisPos" and "scaleWidget (scaleData exampleSnapshot axisPos ! i) = Some aw"
  then show "titleHeightForWidth aw n \<le> 42"
    by (cases axisPos) (auto simp add: numAxes_def init_defs example_defs Let_def)
next
  fix axisPos i
  assume "i < numAxes exampleSnapshot axisPos"
  then show "dimWithoutTitle (scaleData exampleSnapshot axisPos ! i) \<le> 42"
    by (cases axisPos) (auto simp add: numAxes_def init_defs example_defs Let_def)
qed

lemma example_dims:
  "map_option (map_sum id (\<lambda>d. (dimTitle d, dimFooter d, map (dimAxisVector d) axisPositions)))
     (layoutDimensions (layoutEngine exampleLayout) {} exampleSnapshot examplePlotRect)
   = Some (Inr (22, 0, [[35], [40], [60], [0]]))"
  by (simp add: init_defs new_defs example_defs solver_defs layoutLoop.simps Let_def)

theorem layoutDimensions_monotone_terminates_witness:
  "snapshotOk exampleSnapshot \<and> callbacksBounded {} exampleSnapshot 42
   \<and> (\<exists>d. layoutDimensions (layoutEngine exampleLayout) {} exampleSnapshot examplePlotRect = Some (Inr d)
         \<and> layoutIteration (layoutEngine exampleLayout) {} exampleSnapshot examplePlotRect d = Inr (d, True)
         \<and> dimsLe (Dimensions_new exampleSnapshot) d
         \<and> (dimTitle d, dimFooter d, map (dimAxisVector d) axisPositions) = (22, 0, [[35], [40], [60], [0]]))"
  using layoutDimensions_monotone_terminates [of exampleSnapshot "layoutEngine exampleLayout" "{}"
          examplePlotRect 42]
        exampleSnapshot_ok exampleSnapshot_bounded example_dims
  by auto




text \<open>
  Claim C2, as the specification states it, fails for a horizontal axis once the right
  axes have a thickness: the loop takes one pixel more off. When the first run of the loop
  body reaches the bottom axis of the example plot, the length is 314 and not the 315 of
  the formula, so that the title of the axis is measured with two lines and the axis gets
  the dimension 60 instead of 45.
\<close>

theorem axis_length_counterexample:
  "layoutDimensions_length (layoutEngine exampleLayout) {} exampleSnapshot examplePlotRect
      exampleDimensions xBottom (scaleData exampleSnapshot xBottom ! 0) = 314
   \<and> specXAxisLength (layoutEngine exampleLayout) {} exampleSnapshot examplePlotRect
      exampleDimensions (scaleData exampleSnapshot xBottom ! 0) = 315
   \<and> map_sum id (\<lambda>st. dimAxis (fst st) xBottom 0)
        (layoutAxis (layoutEngine exampleLayout) {} exampleSnapshot examplePlotRect xBottom 0
           (exampleDimensions, False)) = Inr 60
   \<and> dimWithoutTitle (scaleData exampleSnapshot xBottom ! 0)
        + titleHeightForWidth exampleBottomAxis (qFloor 315) = 45"
  by (simp add: init_defs new_defs example_defs solver_defs exampleDimensions_def
        specXAxisLength_def Let_def)



lemma length_x:
  "qwtIsXAxis axisPos \<Longrightarrow>
   layoutDimensions_length eng options ld rect d axisPos sd =
     width rect - real_of_int (dimYAxes d) - real_of_int (start sd + end' sd)
           - (if dimAxes d yRight > 0 then 1 else 0)
           + real_of_int (min (dimAxes d yLeft) (start sd - backboneOffset eng options ld yLeft))
           + real_of_int (min (dimAxes d yRight) (end' sd - backboneOffset eng options ld yRight))"
  by (simp add: layoutDimensions_length_def Let_def)

lemma length_y:
  "\<not> qwtIsXAxis axisPos \<Longrightarrow>
   layoutDimensions_length eng options ld rect d axisPos sd =
     height rect - real_of_int (dimXAxes d) - real_of_int (start sd + end' sd) - 1
           - (if dimAxes d xBottom \<le> 0 then 1 else 0)
           - (if dimAxes d xTop \<le> 0 then 1 else 0)
           + (if dimAxes d xBottom > 0
              then min (tickOffset ld xBottom)
                     (real_of_int (start sd - backboneOffset eng options ld xBottom))
              else 0)
           + (if dimAxes d xTop > 0
              then min (tickOffset ld xTop)
                     (real_of_int (end' sd - backboneOffset eng options ld xTop))
              else 0)
           - (if dimTitle d > 0 then real_of_int (dimTitle d + d_spacing eng) else 0)"
  by (simp add: layoutDimensions_length_def Let_def)

lemma layoutAxis_visible:
  "isVisible (scaleData ld axisPos ! i) \<Longrightarrow> scaleWidget (scaleData ld axisPos ! i) = Some aw \<Longrightarrow>
   layoutAxis eng options ld rect axisPos i (d, dn) =
            Inr (let dm = dimWithoutTitle (scaleData ld axisPos ! i)
                       + (if titleIsEmpty aw then 0
                          else titleHeightForWidth aw
                                 \<lfloor>layoutDimensions_length eng options ld rect d axisPos
                                    (scaleData ld axisPos ! i)\<rfloor>)
                 in if dm > dimAxis d axisPos i then (setDimAxis axisPos i dm d, False)
                    else (d, dn))"
  by (simp add: layoutAxis_def qFloor_def Let_def)

text \<open>
  Claim C2, amended. For a horizontal axis the available length is the rect width minus
  the thickness of the left and right axes, minus the start and end border distance hints,
  minus 1 when the right axes have a positive thickness, plus the minimum of the left axes
  thickness and the start hint minus the left backbone offset, plus the minimum of the
  right axes thickness and the end hint minus the right backbone offset. For a vertical
  axis it is the rect height minus the thickness of the top and bottom axes, minus the
  hints, minus 1, minus 1 more for each of the bottom and the top axes without thickness,
  plus, for the bottom axes when they have a thickness, the minimum of their tick offset and
  the start hint minus the bottom backbone offset, likewise for the top axes with the end
  hint, minus title dimension plus spacing when the title dimension is positive. A
  visible axis takes its dimension without title plus, when it has a title, the title
  height for the floor of this length, if that is more than it has.
\<close>

theorem axis_length:
  "layoutDimensions_length eng options ld rect d axisPos sd =
     (if axisPos = xTop \<or> axisPos = xBottom
      then width rect - real_of_int (dimYAxes d) - real_of_int (start sd + end' sd)
           - (if dimAxes d yRight > 0 then 1 else 0)
           + real_of_int (min (dimAxes d yLeft) (start sd - backboneOffset eng options ld yLeft))
           + real_of_int (min (dimAxes d yRight) (end' sd - backboneOffset eng options ld yRight))
      else height rect - real_of_int (dimXAxes d) - real_of_int (start sd + end' sd) - 1
           - (if dimAxes d xBottom \<le> 0 then 1 else 0)
           - (if dimAxes d xTop \<le> 0 then 1 else 0)
           + (if dimAxes d xBottom > 0
              then min (tickOffset ld xBottom)
                     (real_of_int (start sd - backboneOffset eng options ld xBottom))
              else 0)
           + (if dimAxes d xTop > 0
              then min (tickOffset ld xTop)
                     (real_of_int (end' sd - backboneOffset eng options ld xTop))
              else 0)
           - (if dimTitle d > 0 then real_of_int (dimTitle d + d_spacing eng) else 0))
   \<and> (isVisible (scaleData ld axisPos ! i) \<and> scaleWidget (scaleData ld axisPos ! i) = Some aw
      \<longrightarrow> layoutAxis eng options ld rect axisPos i (d, dn) =
            Inr (let dm = dimWithoutTitle (scaleData ld axisPos ! i)
                       + (if titleIsEmpty aw then 0
                          else titleHeightForWidth aw
                                 \<lfloor>layoutDimensions_length eng options ld rect d axisPos
                                    (scaleData ld axisPos ! i)\<rfloor>)
                 in if dm > dimAxis d axisPos i then (setDimAxis axisPos i dm d, False)
                    else (d, dn)))"
proof (intro conjI impI)
  show "layoutDimensions_length eng options ld rect d axisPos sd =
     (if axisPos = xTop \<or> axisPos = xBottom
      then width rect - real_of_int (dimYAxes d) - real_of_int (start sd + end' sd)
           - (if dimAxes d yRight > 0 then 1 else 0)
           + real_of_int (min (dimAxes d yLeft) (start sd - backboneOffset eng options ld yLeft))
           + real_of_int (min (dimAxes d yRight) (end' sd - backboneOffset eng options ld yRight))
      else height rect - real_of_int (dimXAxes d) - real_of_int (start sd + end' sd) - 1
           - (if dimAxes d xBottom \<le> 0 then 1 else 0)
           - (if dimAxes d xTop \<le> 0 then 1 else 0)
           + (if dimAxes d xBottom > 0
              then min (tickOffset ld xBottom)
                     (real_of_int (start sd - backboneOffset eng options ld xBottom))
              else 0)
           + (if dimAxes d xTop > 0
              then min (tickOffset ld xTop)
                     (real_of_int (end' sd - backboneOffset eng options ld xTop))
              else 0)
           - (if dimTitle d > 0 then real_of_int (dimTitle d + d_spacing eng) else 0))"
  proof (cases "qwtIsXAxis axisPos")
    case True
    then show ?thesis by (simp only: length_x [OF True]) (simp add: qwtIsXAxis_def)
  next
    case False
    then show ?thesis by (simp only: length_y [OF False]) (simp add: qwtIsXAxis_def)
  qed
next
  assume "isVisible (scaleData ld axisPos ! i) \<and> scaleWidget (scaleData ld axisPos ! i) = Some aw"
  then show "layoutAxis eng options ld rect axisPos i (d, dn) =
            Inr (let dm = dimWithoutTitle (scaleData ld axisPos ! i)
                       + (if titleIsEmpty aw then 0
                          else titleHeightForWidth aw
                                 \<lfloor>layoutDimensions_length eng options ld rect d axisPos
                                    (scaleData ld axisPos ! i)\<rfloor>)
                 in if dm > dimAxis d axisPos i then (setDimAxis axisPos i dm d, False)
                    else (d, dn))"
    using layoutAxis_visible by blast
qed


theorem axis_length_witness:
  "layoutDimensions_length (layoutEngine exampleLayout) {} exampleSnapshot examplePlotRect
      exampleDimensions xBottom (scaleData exampleSnapshot xBottom ! 0) = 314
   \<and> layoutDimensions_length (layoutEngine exampleLayout) {} exampleSnapshot examplePlotRect
      exampleDimensions yLeft (scaleData exampleSnapshot yLeft ! 0) = 258
   \<and> isVisible (scaleData exampleSnapshot xBottom ! 0)
   \<and> scaleWidget (scaleData exampleSnapshot xBottom ! 0) = Some exampleBottomAxis
   \<and> map_sum id (\<lambda>st. (dimAxis (fst st) xBottom 0, snd st))
        (layoutAxis (layoutEngine exampleLayout) {} exampleSnapshot examplePlotRect xBottom 0
           (exampleDimensions, True)) = Inr (60, False)"
proof -
  have v: "isVisible (scaleData exampleSnapshot xBottom ! 0)
      \<and> scaleWidget (scaleData exampleSnapshot xBottom ! 0) = Some exampleBottomAxis"
    by (simp add: init_defs example_defs Let_def)
  have l1: "layoutDimensions_length (layoutEngine exampleLayout) {} exampleSnapshot examplePlotRect
      exampleDimensions xBottom (scaleData exampleSnapshot xBottom ! 0) = 314"
    by (subst axis_length [THEN conjunct1])
       (simp add: init_defs new_defs example_defs exampleDimensions_def Let_def
          Dimensions_new_def numAxes_def setDimAxis_def dimAxes_def dimYAxes_def dimXAxes_def
          backboneOffset_def width_def height_def)
  have l2: "layoutDimensions_length (layoutEngine exampleLayout) {} exampleSnapshot examplePlotRect
      exampleDimensions yLeft (scaleData exampleSnapshot yLeft ! 0) = 258"
    by (subst axis_length [THEN conjunct1])
       (simp add: init_defs new_defs example_defs exampleDimensions_def Let_def
          Dimensions_new_def numAxes_def setDimAxis_def dimAxes_def dimYAxes_def dimXAxes_def
          backboneOffset_def width_def height_def)
  have a: "map_sum id (\<lambda>st. (dimAxis (fst st) xBottom 0, snd st))
        (layoutAxis (layoutEngine exampleLayout) {} exampleSnapshot examplePlotRect xBottom 0
           (exampleDimensions, True)) = Inr (60, False)"
    apply (subst axis_length [THEN conjunct2, rule_format, OF v])
    apply (subst l1)
    apply (simp add: init_defs example_defs exampleDimensions_def Let_def
          Dimensions_new_def numAxes_def setDimAxis_def dimAxis_def)
    done
  show ?thesis using v l1 l2 a by simp
qed


subsection \<open>The snapshot\<close>


lemma initAxis_fst:
  "fst (initAxis plot axisPos st i) =
     (fst st)[i := ScaleData_init (axisWidgetOf plot axisPos i) (fst st ! i)]"
  by (simp add: initAxis_def axisWidgetOf_def Let_def)

lemma initAxis_snd:
  "snd (initAxis plot axisPos (sds, tn) i) = snd (initAxis plot axisPos (sds', tn) i)"
  by (simp add: initAxis_def Let_def)

lemma foldl_initAxis_length:
  "length (fst (foldl (initAxis plot axisPos) st [0..<k])) = length (fst st)"
  by (induction k) (simp_all add: initAxis_fst)

lemma foldl_initAxis_nth:
  "i < length (fst st) \<Longrightarrow>
   fst (foldl (initAxis plot axisPos) st [0..<k]) ! i =
     (if i < k then ScaleData_init (axisWidgetOf plot axisPos i) (fst st ! i) else fst st ! i)"
proof (induction k)
  case 0
  then show ?case by simp
next
  case (Suc k)
  show ?case
  proof (cases "i = k")
    case True
    then have "fst (foldl (initAxis plot axisPos) st [0..<k]) ! k = fst st ! k"
      using Suc by simp
    then show ?thesis
      using True Suc.prems by (simp add: initAxis_fst foldl_initAxis_length)
  next
    case False
    then show ?thesis
      using Suc by (simp add: initAxis_fst foldl_initAxis_length nth_list_update less_Suc_eq)
  qed
qed

lemma foldl_initAxis_snd:
  "snd (foldl (initAxis plot axisPos) (sds, tn) [0..<k])
     = snd (foldl (initAxis plot axisPos) (sds', tn) [0..<k])"
proof (induction k)
  case 0
  then show ?case by simp
next
  case (Suc k)
  obtain a b where a: "foldl (initAxis plot axisPos) (sds, tn) [0..<k] = (a, b)"
    by (cases "foldl (initAxis plot axisPos) (sds, tn) [0..<k]")
  obtain a' b' where b: "foldl (initAxis plot axisPos) (sds', tn) [0..<k] = (a', b')"
    by (cases "foldl (initAxis plot axisPos) (sds', tn) [0..<k]")
  from Suc a b have "b = b'" by simp
  then show ?case using a b initAxis_snd [of plot axisPos a b k a'] by simp
qed

lemma length_resize: "length (resize n d xs) = n"
  by (simp add: resize_def)

lemma resize_same: "length xs = n \<Longrightarrow> resize n d xs = xs"
  by (simp add: resize_def)

lemma initScales_length: "length (fst (initScales plot axisPos xs)) = axesCount plot axisPos"
  by (simp add: initScales_def foldl_initAxis_length length_resize)

lemma initScales_nth:
  "i < axesCount plot axisPos \<Longrightarrow>
   fst (initScales plot axisPos xs) ! i =
     ScaleData_init (axisWidgetOf plot axisPos i) (resize (axesCount plot axisPos) ScaleData0 xs ! i)"
  by (simp add: initScales_def foldl_initAxis_nth length_resize)

lemma initScales_snd: "snd (initScales plot axisPos xs) = snd (initScales plot axisPos ys)"
  unfolding initScales_def by (rule foldl_initAxis_snd)

lemma initScales_snd_idem:
  "snd (initScales plot axisPos (fst (initScales plot axisPos xs))) = snd (initScales plot axisPos xs)"
  by (rule initScales_snd)

lemma ScaleData_init_idem: "ScaleData_init w (ScaleData_init w sd) = ScaleData_init w sd"
  by (cases w) (simp_all add: ScaleData_init_def)

lemma initScales_idem:
  "fst (initScales plot axisPos (fst (initScales plot axisPos xs))) = fst (initScales plot axisPos xs)"
  by (rule nth_equalityI)
     (simp_all add: initScales_length initScales_nth resize_same ScaleData_init_idem)

lemma init_scaleData:
  "scaleData (QwtPlotLayoutData_init plot rect ld) axisPos = fst (initScales plot axisPos (scaleData ld axisPos))"
  by (cases axisPos) (simp_all add: QwtPlotLayoutData_init_def initPosition_def axisPositions_def Let_def)

lemma init_tickOffset:
  "tickOffset (QwtPlotLayoutData_init plot rect ld) axisPos
     = fst (snd (initScales plot axisPos (scaleData ld axisPos)))"
  by (cases axisPos) (simp_all add: QwtPlotLayoutData_init_def initPosition_def axisPositions_def Let_def)

lemma init_numVisibleScales:
  "numVisibleScales (QwtPlotLayoutData_init plot rect ld) axisPos
     = snd (snd (initScales plot axisPos (scaleData ld axisPos)))"
  by (cases axisPos) (simp_all add: QwtPlotLayoutData_init_def initPosition_def axisPositions_def Let_def)

lemma init_others:
  "legendData (QwtPlotLayoutData_init plot rect ld) = LegendData_init (legend plot) rect (legendData ld)"
  "labelData (QwtPlotLayoutData_init plot rect ld) Title = LabelData_init (titleLabel plot)"
  "labelData (QwtPlotLayoutData_init plot rect ld) Footer = LabelData_init (footerLabel plot)"
  "contentsMargins (QwtPlotLayoutData_init plot rect ld) = CanvasData_init (canvasContentsMargins plot)"
  "QwtPlotLayoutData.more (QwtPlotLayoutData_init plot rect ld) = QwtPlotLayoutData.more ld"
  by (simp_all add: QwtPlotLayoutData_init_def initPosition_def axisPositions_def Let_def)

lemma LegendData_init_idem:
  "LegendData_init lg rect (LegendData_init lg rect x) = LegendData_init lg rect x"
  by (cases lg) (simp_all add: LegendData_init_def)

lemma init_idem:
  "QwtPlotLayoutData_init plot rect (QwtPlotLayoutData_init plot rect ld)
     = QwtPlotLayoutData_init plot rect ld"
proof (rule QwtPlotLayoutData.equality)
  show "labelData (QwtPlotLayoutData_init plot rect (QwtPlotLayoutData_init plot rect ld))
      = labelData (QwtPlotLayoutData_init plot rect ld)"
  proof
    fix l show "labelData (QwtPlotLayoutData_init plot rect (QwtPlotLayoutData_init plot rect ld)) l
      = labelData (QwtPlotLayoutData_init plot rect ld) l"
      by (cases l) (simp_all add: init_others)
  qed
  show "scaleData (QwtPlotLayoutData_init plot rect (QwtPlotLayoutData_init plot rect ld))
      = scaleData (QwtPlotLayoutData_init plot rect ld)"
    by (rule ext) (simp add: init_scaleData initScales_idem)
  show "tickOffset (QwtPlotLayoutData_init plot rect (QwtPlotLayoutData_init plot rect ld))
      = tickOffset (QwtPlotLayoutData_init plot rect ld)"
    by (rule ext) (simp add: init_tickOffset init_scaleData initScales_snd_idem)
  show "numVisibleScales (QwtPlotLayoutData_init plot rect (QwtPlotLayoutData_init plot rect ld))
      = numVisibleScales (QwtPlotLayoutData_init plot rect ld)"
    by (rule ext) (simp add: init_numVisibleScales init_scaleData initScales_snd_idem)
qed (simp_all add: init_others LegendData_init_idem)

lemma numAxes_init: "numAxes (QwtPlotLayoutData_init plot rect ld) axisPos = axesCount plot axisPos"
  by (simp add: numAxes_def init_scaleData initScales_length)

lemma init_invisible:
  assumes "i < axesCount plot axisPos" and "\<not> fst (axes plot axisPos ! i)"
  shows "\<not> isVisible (scaleData (QwtPlotLayoutData_init plot rect ld) axisPos ! i)"
    and "start (scaleData (QwtPlotLayoutData_init plot rect ld) axisPos ! i) = 0"
    and "end' (scaleData (QwtPlotLayoutData_init plot rect ld) axisPos ! i) = 0"
    and "baseLineOffset (scaleData (QwtPlotLayoutData_init plot rect ld) axisPos ! i) = 0"
    and "dimWithoutTitle (scaleData (QwtPlotLayoutData_init plot rect ld) axisPos ! i) = 0"
  using assms
  by (simp_all add: init_scaleData initScales_nth axisWidgetOf_def ScaleData_init_def)

lemma init_snapshotOk: "snapshotOk (QwtPlotLayoutData_init plot rect ld)"
  unfolding snapshotOk_def
  by (auto simp add: numAxes_init init_scaleData initScales_nth axisWidgetOf_def ScaleData_init_def)


subsection \<open>Title and footer height\<close>


lemma initAxis_count:
  "snd (snd (initAxis plot axisPos st i)) = snd (snd st) + (if fst (axes plot axisPos ! i) then 1 else 0)"
  by (simp add: initAxis_def Let_def)

lemma foldl_initAxis_count:
  "k \<le> length (axes plot axisPos) \<Longrightarrow>
   snd (snd (foldl (initAxis plot axisPos) st [0..<k]))
     = snd (snd st) + int (length (filter fst (take k (axes plot axisPos))))"
proof (induction k)
  case 0
  then show ?case by simp
next
  case (Suc k)
  then show ?case
    by (simp add: initAxis_count take_Suc_conv_app_nth)
qed

lemma init_visibleAxes:
  "numVisibleScales (QwtPlotLayoutData_init plot rect ld) axisPos = visibleAxes plot axisPos"
  by (simp add: init_numVisibleScales initScales_def foldl_initAxis_count axesCount_def visibleAxes_def)

text \<open>
  Claim C3. For a non-empty title or footer text, \<open>heightForWidth\<close> measures the text at
  the given width minus the axes width when the numbers of visible left and right axes
  of the snapshot differ, and at the full width when they are equal; unless frames are
  ignored, twice the frame width of the label is added to the measured height. The
  numbers of the snapshot are equal exactly when the plot has as many visible axes at the
  left as at the right.
\<close>

theorem heightForWidth_label:
  "(\<not> textIsEmpty (ltext (labelData ld labelType)) \<longrightarrow>
      heightForWidth labelType ld options wdth axesWidth =
        qCeil (textHeightForWidth (ltext (labelData ld labelType))
                 (if numVisibleScales ld yLeft = numVisibleScales ld yRight
                  then wdth else wdth - real_of_int axesWidth))
        + (if IgnoreFrames \<in> options then 0 else 2 * lframeWidth (labelData ld labelType)))
   \<and> (numVisibleScales (QwtPlotLayoutData_init plot rect ld0) yLeft
          = numVisibleScales (QwtPlotLayoutData_init plot rect ld0) yRight
        \<longleftrightarrow> visibleAxes plot yLeft = visibleAxes plot yRight)"
  by (simp add: heightForWidth_def hasSymmetricYAxes_def Let_def init_visibleAxes)

theorem heightForWidth_label_witness:
  "\<not> textIsEmpty (ltext (labelData titledLayoutData Title))
   \<and> heightForWidth Title titledLayoutData {} 400 150 = 42
   \<and> visibleAxes examplePlot yLeft = 1 \<and> visibleAxes examplePlot yRight = 1
   \<and> heightForWidth Title exampleSnapshot {} 400 150 = 22"
proof -
  have ne: "\<not> textIsEmpty (ltext (labelData titledLayoutData Title))"
    by (simp add: titledLayoutData_def exampleTitleText_def textIsEmpty_def)
  have ne2: "\<not> textIsEmpty (ltext (labelData exampleSnapshot Title))"
    by (simp add: exampleSnapshot_def init_others LabelData_init_def examplePlot_def
          exampleTitleText_def textIsEmpty_def)
  have v: "visibleAxes examplePlot yLeft = 1 \<and> visibleAxes examplePlot yRight = 1"
    by (simp add: visibleAxes_def examplePlot_def)
  have a: "heightForWidth Title titledLayoutData {} 400 150 = 42"
    using ne heightForWidth_label [where ld = titledLayoutData and labelType = Title and options = "{}"
        and wdth = 400 and axesWidth = 150]
    by (simp add: titledLayoutData_def exampleTitleText_def exampleLayoutData_def qCeil_def)
  have b: "heightForWidth Title exampleSnapshot {} 400 150 = 22"
    using ne2 v heightForWidth_label [where ld = exampleSnapshot and labelType = Title and options = "{}"
        and wdth = 400 and axesWidth = 150 and plot = examplePlot and rect = examplePlotRect
        and ld0 = exampleLayoutData]
    by (simp add: exampleSnapshot_def init_others LabelData_init_def examplePlot_def
          exampleTitleText_def qCeil_def)
  show ?thesis using ne v a b by simp
qed


subsection \<open>The layout pass\<close>


lemma invalidate_resize:
  "resize n QRectF0 ((resize 1 QRectF0 xs)[0 := QRectF0]) = replicate n QRectF0"
proof -
  have "(resize 1 QRectF0 xs)[0 := QRectF0] = [QRectF0]"
    by (cases xs) (simp_all add: resize_def)
  then show ?thesis
    by (cases n) (simp_all add: resize_def)
qed

lemma invalidate_resize_Suc:
  "resize n QRectF0 ((resize (Suc 0) QRectF0 xs)[0 := QRectF0]) = replicate n QRectF0"
  using invalidate_resize [of n xs] by simp

lemma update_fresh: "update plot rect options s = activate plot rect options (freshRects plot s)"
  by (simp add: update_def invalidate_def freshRects_def invalidate_resize_Suc Let_def)

lemma activate_legend_fields:
  assumes "activate_legend plot options s rect = Inr sr"
  shows "layoutData (fst sr) = layoutData s"
    and "layoutEngine (fst sr) = layoutEngine s"
    and "titleRect (fst sr) = titleRect s"
    and "footerRect (fst sr) = footerRect s"
    and "scaleRects (fst sr) = scaleRects s"
  using assms unfolding activate_legend_def bindF_def Let_def
  by (auto split: if_splits sum.splits)

lemma activate_title_fields:
  "layoutData (fst (activate_title d sr)) = layoutData (fst sr)"
  "layoutEngine (fst (activate_title d sr)) = layoutEngine (fst sr)"
  by (simp_all add: activate_title_def Let_def)

lemma activate_footer_fields:
  "layoutData (fst (activate_footer d sr)) = layoutData (fst sr)"
  "layoutEngine (fst (activate_footer d sr)) = layoutEngine (fst sr)"
  by (simp_all add: activate_footer_def Let_def)

lemma bindF_Inr: "bindF m f = Inr y \<Longrightarrow> \<exists>x. m = Inr x \<and> f x = Inr y"
  by (cases m) (simp_all add: bindF_def)

lemma activate_rects_fields:
  assumes "activate_rects options d sr = Inr s'"
  shows "layoutData s' = layoutData (fst sr) \<and> layoutEngine s' = layoutEngine (fst sr)"
proof -
  let ?s2 = "fst (activate_footer d (activate_title d sr))"
  have "layoutData s' = layoutData ?s2 \<and> layoutEngine s' = layoutEngine ?s2"
    using assms unfolding activate_rects_def Let_def bindF_def
    by (auto split: sum.splits if_splits)
  then show ?thesis
    by (simp add: activate_footer_fields activate_title_fields)
qed

lemma activate_fields:
  assumes "activate plot rect options s = Some (Inr s')"
  shows "layoutData s' = QwtPlotLayoutData_init plot rect (layoutData s)
       \<and> layoutEngine s' = layoutEngine s"
proof -
  let ?s1 = "s\<lparr>layoutData := QwtPlotLayoutData_init plot rect (layoutData s)\<rparr>"
  from assms obtain sr d where l: "activate_legend plot options ?s1 rect = Inr sr"
    and "activate_rects options d sr = Inr s'"
    unfolding activate_def Let_def
    by (auto split: option.splits sum.splits)
  from activate_rects_fields [OF this(2)] activate_legend_fields(1,2) [OF l] show ?thesis
    by simp
qed

lemma activate_init_idem:
  "activate plot rect options (s\<lparr>layoutData := QwtPlotLayoutData_init plot rect (layoutData s)\<rparr>)
     = activate plot rect options s"
  by (simp add: activate_def init_idem)

lemma update_twice:
  assumes "update plot rect options s = Some (Inr s')"
  shows "update plot rect options s' = Some (Inr s')"
proof -
  have a: "activate plot rect options (freshRects plot s) = Some (Inr s')"
    using assms by (simp add: update_fresh)
  from activate_fields [OF a]
  have "freshRects plot s' =
      (freshRects plot s)\<lparr>layoutData := QwtPlotLayoutData_init plot rect (layoutData (freshRects plot s))\<rparr>"
    by (simp add: freshRects_def)
  then show ?thesis
    using a by (simp add: update_fresh activate_init_idem)
qed

lemmas rect_defs = left_def right_def top_def bottom_def width_def height_def setLeft_def
  setRight_def setTop_def setBottom_def setX_def setY_def setWidth_def setHeight_def isValid_def
  isEmpty_def normalized_def QRectF0_def

lemmas activate_defs = update_def activate_def activate_legend_def activate_title_def
  activate_footer_def activate_rects_def activate_axes_def activate_axis_def innerRect_def
  centered_def alignScales_def alignScales_first_def alignScales_second_def alignLeft_def
  alignRight_def alignTop_def alignBottom_def alignLegend_def bindF_def atF_def QWT_DUMMY_ID_def
  spacing_def

lemma example_update:
  "\<exists>s'. update examplePlot examplePlotRect {} exampleLayout = Some (Inr s')
     \<and> titleRect s' = \<lparr>xp = 0, yp = 0, rw = 400, rh = 22\<rparr>
     \<and> canvasRect s' = \<lparr>xp = 35, yp = 27, rw = 325, rh = 213\<rparr>
     \<and> map (scaleRects s') axisPositions =
          [[\<lparr>xp = 0, yp = 27, rw = 35, rh = 213\<rparr>], [\<lparr>xp = 360, yp = 27, rw = 40, rh = 213\<rparr>],
           [\<lparr>xp = 30, yp = 240, rw = 334, rh = 60\<rparr>], [\<lparr>xp = 0, yp = 0, rw = 0, rh = 0\<rparr>]]"
  by (simp add: activate_defs rect_defs init_defs new_defs example_defs solver_defs
        layoutLoop.simps Let_def)

lemma foldF_same:
  assumes "\<And>x. x \<in> set xs \<Longrightarrow> f x s = Inr s"
  shows "foldF f xs s = Inr s"
  using assms by (induction xs) simp_all

lemma dimAxes_new: "dimAxes (Dimensions_new ld) axisPos = 0"
  by (simp add: dimAxes_def Dimensions_new_def sum_list_replicate)

lemma innerRect_new: "innerRect (Dimensions_new ld) rect = rect"
  by (simp add: innerRect_def dimAxes_new dimYAxes_def dimXAxes_def width_def height_def)

lemma activate_title_new: "activate_title (Dimensions_new ld) sr = sr"
  by (simp add: activate_title_def Dimensions_new_def)

lemma activate_footer_new: "activate_footer (Dimensions_new ld) sr = sr"
  by (simp add: activate_footer_def Dimensions_new_def)

lemma activate_axes_new:
  assumes "length (rs axisPos) = numAxes ld axisPos"
  shows "activate_axes (Dimensions_new ld) canvas axisPos rs = Inr rs"
proof -
  have "foldF (activate_axis (Dimensions_new ld) canvas axisPos) [0..<length (rs axisPos)] (0, rs)
      = Inr (0, rs)"
    by (rule foldF_same)
       (simp add: activate_axis_def atF_def bindF_def Dimensions_new_def assms)
  then show ?thesis by (simp add: activate_axes_def bindF_def)
qed

lemma alignScales_null:
  assumes "\<And>axisPos. rs axisPos = replicate (numAxes ld axisPos) QRectF0"
  shows "alignScales eng options ld (canvas, rs) = Inr (canvas, rs)"
proof -
  have first: "foldF (\<lambda>axisPos. foldF (alignScales_first eng options ld axisPos) [0..<numAxes ld axisPos])
          axisPositions (canvas, rs) = Inr (canvas, rs)"
    by (intro foldF_same)
       (simp add: alignScales_first_def atF_def bindF_def assms isValid_def QRectF0_def)
  have second: "foldF (\<lambda>axisPos. foldF (alignScales_second eng options ld axisPos) [0..<numAxes ld axisPos])
          axisPositions (canvas, rs) = Inr (canvas, rs)"
    by (intro foldF_same)
       (simp add: alignScales_second_def atF_def bindF_def assms isValid_def QRectF0_def)
  show ?thesis
    by (simp add: alignScales_def first second bindF_def)
qed

lemma noContent_invisible:
  assumes "plotHasNoContent options plot" and "i < numAxes (QwtPlotLayoutData_init plot rect ld) axisPos"
  shows "\<not> isVisible (scaleData (QwtPlotLayoutData_init plot rect ld) axisPos ! i)"
proof -
  have i: "i < axesCount plot axisPos" using assms(2) by (simp add: numAxes_init)
  then have "axes plot axisPos ! i \<in> set (axes plot axisPos)" by (simp add: axesCount_def)
  then have "\<not> fst (axes plot axisPos ! i)"
    using assms(1) unfolding plotHasNoContent_def by blast
  then show ?thesis by (rule init_invisible(1) [OF i])
qed

lemma noContent_heightForWidth:
  assumes "plotHasNoContent options plot"
  shows "heightForWidth l (QwtPlotLayoutData_init plot rect ld) opts w a = 0"
proof -
  have "textIsEmpty (ltext (labelData (QwtPlotLayoutData_init plot rect ld) l))"
    using assms
    by (cases l)
       (auto simp add: init_others LabelData_init_def plotHasNoContent_def textIsEmpty_def
          QwtText0_def split: option.splits)
  then show ?thesis by (simp add: heightForWidth_def)
qed

lemma noContent_iteration:
  assumes nc: "plotHasNoContent options plot"
  shows "layoutIteration eng options (QwtPlotLayoutData_init plot rect ld) r
           (Dimensions_new (QwtPlotLayoutData_init plot rect ld))
         = Inr (Dimensions_new (QwtPlotLayoutData_init plot rect ld), True)"
proof -
  let ?ld = "QwtPlotLayoutData_init plot rect ld"
  let ?st = "(Dimensions_new ?ld, True)"
  have lab: "layoutLabel l options ?ld r ?st = ?st" for l
    by (cases l) (simp_all add: layoutLabel_def noContent_heightForWidth [OF nc] Dimensions_new_def)
  have "foldF (\<lambda>axisPos. foldF (layoutAxis eng options ?ld r axisPos) [0..<numAxes ?ld axisPos])
          axisPositions ?st = Inr ?st"
    by (intro foldF_same) (simp add: layoutAxis_def noContent_invisible [OF nc])
  then show ?thesis by (simp add: layoutIteration_def lab)
qed

lemma noContent_dimensions:
  assumes nc: "plotHasNoContent options plot"
  shows "layoutDimensions eng options (QwtPlotLayoutData_init plot rect ld) r
         = Some (Inr (Dimensions_new (QwtPlotLayoutData_init plot rect ld)))"
  unfolding layoutDimensions_def
  by (subst layoutLoop.simps) (simp add: noContent_iteration [OF nc])

lemma noContent_legend:
  assumes "plotHasNoContent options plot"
  shows "activate_legend plot options s rect = Inr (s, rect)"
  using assms by (auto simp add: activate_legend_def plotHasNoContent_def split: option.splits)

text \<open>
  Claim C5, amended. For a plot whose title and footer texts are empty, whose legend is
  missing, empty or ignored and whose axes are all invisible, the layout pass returns, and
  its canvas rectangle is the plot rectangle itself: the contents margins of the canvas are
  not taken off.
\<close>

theorem empty_plot_canvas:
  assumes nc: "plotHasNoContent options plot"
  shows "\<exists>s'. update plot rect options s = Some (Inr s') \<and> canvasRect s' = rect"
proof -
  let ?ld = "QwtPlotLayoutData_init plot rect (layoutData s)"
  let ?s1 = "(freshRects plot s)\<lparr>layoutData := ?ld\<rparr>"
  have rs: "scaleRects ?s1 axisPos = replicate (numAxes ?ld axisPos) QRectF0" for axisPos
    by (simp add: freshRects_def numAxes_init)
  have ax: "foldF (activate_axes (Dimensions_new ?ld) rect) axisPositions (scaleRects ?s1)
      = Inr (scaleRects ?s1)"
    by (intro foldF_same activate_axes_new) (simp add: freshRects_def numAxes_init)
  have al: "alignScales (layoutEngine ?s1) options ?ld (rect, scaleRects ?s1)
      = Inr (rect, scaleRects ?s1)"
    by (rule alignScales_null) (rule rs)
  have "activate_rects options (Dimensions_new ?ld) (?s1, rect)
      = Inr (?s1\<lparr>canvasRect := rect, scaleRects := scaleRects ?s1\<rparr>)"
    using ax al
    by (simp add: activate_rects_def activate_title_new activate_footer_new innerRect_new
          bindF_def Let_def)
       (simp add: freshRects_def isEmpty_def QRectF0_def)
  then have "update plot rect options s
      = Some (Inr (?s1\<lparr>canvasRect := rect, scaleRects := scaleRects ?s1\<rparr>))"
    by (simp add: update_fresh activate_def noContent_legend [OF nc]
          noContent_dimensions [OF nc] freshRects_def)
  then show ?thesis by simp
qed

text \<open>
  Claim C5, as the specification states it, fails when the canvas has contents margins:
  for the empty plot with margins of 2 the canvas rectangle is the plot rectangle
  (0, 0, 400, 300), not the rectangle (2, 2, 396, 296) inside the margins.
\<close>

theorem empty_plot_canvas_counterexample:
  "plotHasNoContent {} emptyPlot
   \<and> map_option (map_sum id canvasRect) (update emptyPlot examplePlotRect {} exampleLayout)
       = Some (Inr \<lparr>xp = 0, yp = 0, rw = 400, rh = 300\<rparr>)
   \<and> specEmptyCanvasRect examplePlotRect (canvasContentsMargins emptyPlot)
       = \<lparr>xp = 2, yp = 2, rw = 396, rh = 296\<rparr>"
  by (simp add: plotHasNoContent_def emptyPlot_def specEmptyCanvasRect_def
        activate_defs rect_defs init_defs new_defs example_defs solver_defs
        layoutLoop.simps Let_def)

theorem empty_plot_canvas_witness:
  "plotHasNoContent {} emptyPlot
   \<and> (\<exists>s'. update emptyPlot examplePlotRect {} exampleLayout = Some (Inr s')
         \<and> canvasRect s' = \<lparr>xp = 0, yp = 0, rw = 400, rh = 300\<rparr>)"
proof -
  have nc: "plotHasNoContent {} emptyPlot"
    by (simp add: plotHasNoContent_def emptyPlot_def)
  from empty_plot_canvas [OF nc, of examplePlotRect exampleLayout] nc
  show ?thesis by (simp add: examplePlotRect_def)
qed


subsection \<open>Invisible axes\<close>












lemma alignScales_first_slot:
  assumes res: "alignScales_first eng options ld p j st = Inr st'"
    and null: "snd st axisPos ! i = QRectF0"
  shows "snd st' axisPos ! i = QRectF0"
proof (cases "p = axisPos \<and> j = i")
  case True
  then have "st' = st"
    using res null unfolding alignScales_first_def bindF_def atF_def Let_def
    by (auto simp add: isValid_def QRectF0_def split: if_splits)
  then show ?thesis using null by simp
next
  case False
  have "st' = st \<or> (\<exists>c r. st' = (c, (snd st)(p := (snd st p)[j := r])))"
    using res unfolding alignScales_first_def bindF_def atF_def Let_def
    by (auto split: if_splits)
  then show ?thesis using False null by auto
qed

lemma alignScales_second_slot:
  assumes res: "alignScales_second eng options ld p j st = Inr st'"
    and null: "snd st axisPos ! i = QRectF0"
  shows "snd st' axisPos ! i = QRectF0"
proof (cases "p = axisPos \<and> j = i")
  case True
  then have "st' = st"
    using res null unfolding alignScales_second_def bindF_def atF_def Let_def
    by (auto simp add: isValid_def QRectF0_def split: if_splits)
  then show ?thesis using null by simp
next
  case False
  have "st' = st \<or> (\<exists>c r. st' = (c, (snd st)(p := (snd st p)[j := r])))"
    using res unfolding alignScales_second_def bindF_def atF_def Let_def
    by (auto split: if_splits)
  then show ?thesis using False null by auto
qed

lemma alignScales_slot:
  assumes res: "alignScales eng options ld st = Inr st'"
    and null: "snd st axisPos ! i = QRectF0"
  shows "snd st' axisPos ! i = QRectF0"
proof -
  let ?R = "\<lambda>(a :: QRectF \<times> ScaleRects) (b :: QRectF \<times> ScaleRects). snd a axisPos ! i = QRectF0 \<longrightarrow> snd b axisPos ! i = QRectF0"
  from res obtain st1 where
    f1: "foldF (\<lambda>p. foldF (alignScales_first eng options ld p) [0..<numAxes ld p]) axisPositions st = Inr st1"
    and f2: "foldF (\<lambda>p. foldF (alignScales_second eng options ld p) [0..<numAxes ld p]) axisPositions st1 = Inr st'"
    unfolding alignScales_def bindF_def by (auto split: sum.splits)
  have in1: "?R a b" if "foldF (alignScales_first eng options ld p) [0..<numAxes ld p] a = Inr b" for p a b
    by (rule foldF_rel [where R = ?R, OF _ _ _ that]) (simp_all add: alignScales_first_slot)
  have in2: "?R a b" if "foldF (alignScales_second eng options ld p) [0..<numAxes ld p] a = Inr b" for p a b
    by (rule foldF_rel [where R = ?R, OF _ _ _ that]) (simp_all add: alignScales_second_slot)
  have "?R st st1"
    by (rule foldF_rel [where R = ?R, OF _ _ _ f1]) (simp_all add: in1)
  moreover have "?R st1 st'"
    by (rule foldF_rel [where R = ?R, OF _ _ _ f2]) (simp_all add: in2)
  ultimately show ?thesis using null by simp
qed
















subsection \<open>A second pass\<close>


lemma foldF_append: "foldF f (xs @ ys) s = bindF (foldF f xs s) (foldF f ys)"
  by (induction xs arbitrary: s) (simp_all add: bindF_def split: sum.splits)

lemma foldF_single: "foldF f [x] s = f x s"
  by (cases "f x s") simp_all

lemma foldF_upt_Suc: "foldF f [0..<Suc k] s = bindF (foldF f [0..<k] s) (f k)"
proof -
  have "foldF f [0..<Suc k] s = bindF (foldF f [0..<k] s) (foldF f [k])"
    by (simp add: foldF_append)
  also have "foldF f [k] = f k"
    by (rule ext) (rule foldF_single)
  finally show ?thesis .
qed

lemma stackPos_Suc:
  "i < length (dimAxisVector d axisPos) \<Longrightarrow>
   stackPos d axisPos (Suc i) = stackPos d axisPos i + dimAxisVector d axisPos ! i"
  by (simp add: stackPos_def take_Suc_conv_app_nth)

lemma activate_axis_eq:
  assumes "i < length (dimAxisVector d axisPos)"
  shows "activate_axis d canvas axisPos i (stackPos d axisPos i, rs) =
     Inr (stackPos d axisPos (Suc i),
          rs(axisPos := (if dimAxisVector d axisPos ! i \<noteq> 0
                         then (rs axisPos)[i := slotRect d canvas axisPos i] else rs axisPos)))"
  using assms
  by (simp add: activate_axis_def atF_def bindF_def stackPos_Suc slotRect_def Let_def)

lemma allocated_0: "allocated d canvas axisPos 0 xs = xs"
  by (simp add: allocated_def map_nth)

lemma allocated_Suc:
  "k < length xs \<Longrightarrow>
   (if dimAxisVector d axisPos ! k \<noteq> 0
    then (allocated d canvas axisPos k xs)[k := slotRect d canvas axisPos k]
    else allocated d canvas axisPos k xs) = allocated d canvas axisPos (Suc k) xs"
  by (rule nth_equalityI) (auto simp add: allocated_def nth_list_update less_Suc_eq)

lemma length_allocated: "length (allocated d canvas axisPos k xs) = length xs"
  by (simp add: allocated_def)

lemma activate_axis_fold:
  assumes len: "length (rs axisPos) \<le> length (dimAxisVector d axisPos)"
  shows "k \<le> length (rs axisPos) \<Longrightarrow>
     foldF (activate_axis d canvas axisPos) [0..<k] (0, rs) =
       Inr (stackPos d axisPos k, rs(axisPos := allocated d canvas axisPos k (rs axisPos)))"
proof (induction k)
  case 0
  then show ?case by (simp add: stackPos_def allocated_0)
next
  case (Suc k)
  then have k: "k < length (rs axisPos)" and kd: "k < length (dimAxisVector d axisPos)"
    using len by simp_all
  have ih: "foldF (activate_axis d canvas axisPos) [0..<k] (0, rs) =
       Inr (stackPos d axisPos k, rs(axisPos := allocated d canvas axisPos k (rs axisPos)))"
    by (rule Suc.IH) (use Suc.prems in simp)
  have "foldF (activate_axis d canvas axisPos) [0..<Suc k] (0, rs) =
      activate_axis d canvas axisPos k
        (stackPos d axisPos k, rs(axisPos := allocated d canvas axisPos k (rs axisPos)))"
    by (simp only: foldF_upt_Suc ih bindF_def sum.case)
  also have "\<dots> = Inr (stackPos d axisPos (Suc k),
      rs(axisPos := allocated d canvas axisPos (Suc k) (rs axisPos)))"
    using allocated_Suc [OF k, of d axisPos canvas]
    by (cases "dimAxisVector d axisPos ! k = 0") (simp_all add: activate_axis_eq [OF kd])
  finally show ?case .
qed

lemma activate_axes_eq:
  assumes "length (rs axisPos) \<le> length (dimAxisVector d axisPos)"
  shows "activate_axes d canvas axisPos rs =
     Inr (rs(axisPos := allocated d canvas axisPos (length (rs axisPos)) (rs axisPos)))"
  using activate_axis_fold [where rs = rs and d = d and axisPos = axisPos
      and k = "length (rs axisPos)" and canvas = canvas, OF assms]
  by (simp add: activate_axes_def bindF_def)

lemma allocate_eq:
  assumes "\<And>p. length (rs p) \<le> length (dimAxisVector d p)"
  shows "foldF (activate_axes d canvas) axisPositions rs =
     Inr (\<lambda>p. allocated d canvas p (length (rs p)) (rs p))"
proof -
  have "foldF (activate_axes d canvas) axisPositions rs =
     Inr (rs(yLeft := allocated d canvas yLeft (length (rs yLeft)) (rs yLeft),
             yRight := allocated d canvas yRight (length (rs yRight)) (rs yRight),
             xBottom := allocated d canvas xBottom (length (rs xBottom)) (rs xBottom),
             xTop := allocated d canvas xTop (length (rs xTop)) (rs xTop)))"
    by (simp add: axisPositions_def activate_axes_eq assms)
  moreover have "rs(yLeft := allocated d canvas yLeft (length (rs yLeft)) (rs yLeft),
             yRight := allocated d canvas yRight (length (rs yRight)) (rs yRight),
             xBottom := allocated d canvas xBottom (length (rs xBottom)) (rs xBottom),
             xTop := allocated d canvas xTop (length (rs xTop)) (rs xTop))
         = (\<lambda>p. allocated d canvas p (length (rs p)) (rs p))"
  proof
    fix p
    show "(rs(yLeft := allocated d canvas yLeft (length (rs yLeft)) (rs yLeft),
             yRight := allocated d canvas yRight (length (rs yRight)) (rs yRight),
             xBottom := allocated d canvas xBottom (length (rs xBottom)) (rs xBottom),
             xTop := allocated d canvas xTop (length (rs xTop)) (rs xTop))) p
         = allocated d canvas p (length (rs p)) (rs p)"
      by (cases p) simp_all
  qed
  ultimately show ?thesis by simp
qed

lemma allocated_cong:
  assumes "length xs = length ys"
    and "\<And>j. j < length xs \<Longrightarrow> dimAxisVector d axisPos ! j = 0 \<Longrightarrow> xs ! j = ys ! j"
  shows "allocated d canvas axisPos (length xs) xs = allocated d canvas axisPos (length ys) ys"
  using assms by (auto simp add: allocated_def)

lemma alignScales_first_shape:
  assumes "alignScales_first eng options ld p j st = Inr st'"
  shows "st' = st \<or> (\<exists>c r. st' = (c, (snd st)(p := (snd st p)[j := r])))"
  using assms unfolding alignScales_first_def bindF_def atF_def Let_def
  by (auto split: if_splits)

lemma alignScales_second_shape:
  assumes "alignScales_second eng options ld p j st = Inr st'"
  shows "st' = st \<or> (\<exists>c r. st' = (c, (snd st)(p := (snd st p)[j := r])))"
  using assms unfolding alignScales_second_def bindF_def atF_def Let_def
  by (auto split: if_splits)

lemma alignScales_lengths:
  assumes res: "alignScales eng options ld st = Inr st'"
  shows "length (snd st' q) = length (snd st q)"
proof -
  let ?R = "\<lambda>(a :: QRectF \<times> ScaleRects) (b :: QRectF \<times> ScaleRects).
      \<forall>q. length (snd b q) = length (snd a q)"
  from res obtain st1 where
    f1: "foldF (\<lambda>p. foldF (alignScales_first eng options ld p) [0..<numAxes ld p]) axisPositions st = Inr st1"
    and f2: "foldF (\<lambda>p. foldF (alignScales_second eng options ld p) [0..<numAxes ld p]) axisPositions st1 = Inr st'"
    unfolding alignScales_def bindF_def by (auto split: sum.splits)
  have s1: "?R a b" if "alignScales_first eng options ld p j a = Inr b" for p j a b
    using alignScales_first_shape [OF that] by auto
  have s2: "?R a b" if "alignScales_second eng options ld p j a = Inr b" for p j a b
    using alignScales_second_shape [OF that] by auto
  have in1: "?R a b" if "foldF (alignScales_first eng options ld p) [0..<numAxes ld p] a = Inr b" for p a b
    by (rule foldF_rel [where R = ?R, OF _ _ _ that]) (simp_all add: s1)
  have in2: "?R a b" if "foldF (alignScales_second eng options ld p) [0..<numAxes ld p] a = Inr b" for p a b
    by (rule foldF_rel [where R = ?R, OF _ _ _ that]) (simp_all add: s2)
  have "?R st st1"
    by (rule foldF_rel [where R = ?R, OF _ _ _ f1]) (simp_all add: in1)
  moreover have "?R st1 st'"
    by (rule foldF_rel [where R = ?R, OF _ _ _ f2]) (simp_all add: in2)
  ultimately show ?thesis by simp
qed

lemma labels_fields:
  "scaleRects (fst (activate_footer d (activate_title d (x, r)))) = scaleRects x"
  "legendRect (fst (activate_footer d (activate_title d (x, r)))) = legendRect x"
  "layoutData (fst (activate_footer d (activate_title d (x, r)))) = layoutData x"
  "layoutEngine (fst (activate_footer d (activate_title d (x, r)))) = layoutEngine x"
  "PrivateData.more (fst (activate_footer d (activate_title d (x, r)))) = PrivateData.more x"
  by (simp_all add: activate_footer_def activate_title_def Let_def)

lemma labels_cong:
  assumes "layoutData b = layoutData a" and "layoutEngine b = layoutEngine a"
  shows "snd (activate_footer d (activate_title d (b, r))) = snd (activate_footer d (activate_title d (a, r)))"
    and "titleRect (fst (activate_footer d (activate_title d (b, r))))
       = (if dimTitle d > 0 then titleRect (fst (activate_footer d (activate_title d (a, r))))
          else titleRect b)"
    and "footerRect (fst (activate_footer d (activate_title d (b, r))))
       = (if dimFooter d > 0 then footerRect (fst (activate_footer d (activate_title d (a, r))))
          else footerRect b)"
  using assms
  by (simp_all add: activate_footer_def activate_title_def spacing_def Let_def)

text \<open>The pieces of a run of \<open>activate_rects\<close> that returns a state.\<close>

lemma activate_rects_split:
  assumes "activate_rects options d (a, r) = Inr s'"
  obtains rs cr where
    "foldF (activate_axes d (innerRect d (snd (activate_footer d (activate_title d (a, r))))))
        axisPositions (scaleRects a) = Inr rs"
    and "alignScales (layoutEngine a) options (layoutData a)
        (innerRect d (snd (activate_footer d (activate_title d (a, r)))), rs) = Inr cr"
    and "titleRect s' = titleRect (fst (activate_footer d (activate_title d (a, r))))"
    and "footerRect s' = footerRect (fst (activate_footer d (activate_title d (a, r))))"
    and "scaleRects s' = snd cr" and "canvasRect s' = fst cr"
    and "legendRect s' = (if \<not> isEmpty (legendRect a)
           then alignLegend (layoutEngine a) (legendData (layoutData a)) (fst cr) (legendRect a)
           else legendRect a)"
    and "layoutData s' = layoutData a" and "layoutEngine s' = layoutEngine a"
  using assms unfolding activate_rects_def bindF_def Let_def
  by (auto simp add: labels_fields split: sum.splits if_splits)

lemma layoutLoop_fit:
  assumes res: "layoutLoop eng options ld r d = Some y"
  shows "\<forall>d'. y = Inr d' \<longrightarrow> dimsFit ld d \<longrightarrow> dimsFit ld d'"
proof (rule layoutLoop.raw_induct
    [where P = "\<lambda>eng options ld r d y. \<forall>d'. y = Inr d' \<longrightarrow> dimsFit ld d \<longrightarrow> dimsFit ld d'",
     OF _ res])
  fix loop :: "QwtPlotLayoutEngine \<Rightarrow> Options \<Rightarrow> QwtPlotLayoutData \<Rightarrow> QRectF \<Rightarrow> Dimensions
     \<Rightarrow> (fault + Dimensions) option"
  fix eng options ld r d y
  assume IH: "\<And>eng options ld r d y. loop eng options ld r d = Some y \<Longrightarrow>
      \<forall>d'. y = Inr d' \<longrightarrow> dimsFit ld d \<longrightarrow> dimsFit ld d'"
    and eq: "(case layoutIteration eng options ld r d of Inl e \<Rightarrow> Some (Inl e)
       | Inr st \<Rightarrow> if snd st then Some (Inr (fst st)) else loop eng options ld r (fst st)) = Some y"
  show "\<forall>d'. y = Inr d' \<longrightarrow> dimsFit ld d \<longrightarrow> dimsFit ld d'"
  proof (intro allI impI)
    fix d'
    assume y: "y = Inr d'" and fit0: "dimsFit ld d"
    from eq y obtain st where it: "layoutIteration eng options ld r d = Inr st"
      by (cases "layoutIteration eng options ld r d") simp_all
    from layoutIteration_monotone [OF fit0, of eng options r "fst st" "snd st"] it
    have fit: "dimsFit ld (fst st)" by simp
    show "dimsFit ld d'"
    proof (cases "snd st")
      case True
      then have "d' = fst st" using eq y it by simp
      then show ?thesis using fit by simp
    next
      case False
      then have "loop eng options ld r (fst st) = Some y" using eq it by simp
      from IH [OF this] y fit show ?thesis by simp
    qed
  qed
qed

lemma layoutDimensions_fit:
  assumes "layoutDimensions eng options ld r = Some (Inr d)"
  shows "length (dimAxisVector d p) = numAxes ld p"
proof -
  have "dimsFit ld (Dimensions_new ld)"
    by (simp add: dimsFit_def Dimensions_new_def)
  with layoutLoop_fit [OF assms [unfolded layoutDimensions_def]]
  have "dimsFit ld d" by simp
  then show ?thesis by (simp add: dimsFit_def)
qed

lemma activate_rects_again:
  assumes res: "activate_rects options d (a, r) = Inr s'"
    and fresh: "\<And>p. scaleRects a p = replicate (length (dimAxisVector d p)) QRectF0"
    and ld: "layoutData b = layoutData a" and eng: "layoutEngine b = layoutEngine a"
    and lg: "legendRect b = legendRect a"
    and tr: "titleRect b = titleRect s'" and fr: "footerRect b = footerRect s'"
    and sc: "scaleRects b = scaleRects s'"
  shows "activate_rects options d (b, r) = Inr s'"
proof -
  let ?Ta = "activate_footer d (activate_title d (a, r))"
  let ?Tb = "activate_footer d (activate_title d (b, r))"
  let ?canvas = "innerRect d (snd ?Ta)"
  from res obtain rs cr where
    alloc: "foldF (activate_axes d ?canvas) axisPositions (scaleRects a) = Inr rs"
    and al: "alignScales (layoutEngine a) options (layoutData a) (?canvas, rs) = Inr cr"
    and t': "titleRect s' = titleRect (fst ?Ta)" and f': "footerRect s' = footerRect (fst ?Ta)"
    and s': "scaleRects s' = snd cr" and c': "canvasRect s' = fst cr"
    and l': "legendRect s' = (if \<not> isEmpty (legendRect a)
           then alignLegend (layoutEngine a) (legendData (layoutData a)) (fst cr) (legendRect a)
           else legendRect a)"
    and d': "layoutData s' = layoutData a" and e': "layoutEngine s' = layoutEngine a"
    by (rule activate_rects_split)
  have rs: "rs = (\<lambda>p. allocated d ?canvas p (length (scaleRects a p)) (scaleRects a p))"
    using allocate_eq [of "scaleRects a" d ?canvas] alloc by (simp add: fresh)
  have len: "length (snd cr p) = length (scaleRects a p)" for p
    using alignScales_lengths [OF al, of p] by (simp add: rs length_allocated)
  have zero: "snd cr p ! j = scaleRects a p ! j"
    if "j < length (scaleRects a p)" and "dimAxisVector d p ! j = 0" for p j
  proof -
    have "snd (?canvas, rs) p ! j = QRectF0"
      using that by (simp add: rs allocated_def fresh)
    from alignScales_slot [OF al this] show ?thesis using that by (simp add: fresh)
  qed
  have alloc_b: "foldF (activate_axes d ?canvas) axisPositions (snd cr) = Inr rs"
  proof -
    have "foldF (activate_axes d ?canvas) axisPositions (snd cr)
        = Inr (\<lambda>p. allocated d ?canvas p (length (snd cr p)) (snd cr p))"
      by (rule allocate_eq) (simp add: len fresh)
    moreover have "allocated d ?canvas p (length (snd cr p)) (snd cr p)
        = allocated d ?canvas p (length (scaleRects a p)) (scaleRects a p)" for p
      by (rule allocated_cong) (simp_all add: len zero)
    ultimately show ?thesis by (simp add: rs)
  qed
  have sndT: "snd ?Tb = snd ?Ta" by (rule labels_cong(1) [OF ld eng])
  have tB: "titleRect (fst ?Tb) = titleRect s'"
    using labels_cong(2) [OF ld eng, of d r] t' tr by simp
  have fB: "footerRect (fst ?Tb) = footerRect s'"
    using labels_cong(3) [OF ld eng, of d r] f' fr by simp
  have "activate_rects options d (b, r) =
      (let s3 = (fst ?Tb)\<lparr>canvasRect := fst cr, scaleRects := snd cr\<rparr>
       in if \<not> isEmpty (legendRect s3)
          then Inr (s3\<lparr>legendRect := alignLegend (layoutEngine s3) (legendData (layoutData s3))
                                       (canvasRect s3) (legendRect s3)\<rparr>)
          else Inr s3)"
    using alloc_b al
    by (simp add: activate_rects_def sndT labels_fields sc s' ld eng bindF_def Let_def)
  also have "\<dots> = Inr s'"
  proof (cases "isEmpty (legendRect a)")
    case True
    have "(fst ?Tb)\<lparr>canvasRect := fst cr, scaleRects := snd cr\<rparr> = s'"
      by (rule PrivateData.equality)
         (simp_all add: labels_fields tB fB lg l' s' c' d' e' ld eng True)
    moreover have "isEmpty (legendRect s')" using True l' by simp
    ultimately show ?thesis by (simp add: Let_def)
  next
    case False
    have "(fst ?Tb)\<lparr>canvasRect := fst cr, scaleRects := snd cr,
            legendRect := alignLegend (layoutEngine a) (legendData (layoutData a)) (fst cr)
                            (legendRect a)\<rparr> = s'"
      by (rule PrivateData.equality)
         (simp_all add: labels_fields tB fB lg l' s' c' d' e' ld eng False)
    moreover have "\<not> isEmpty (legendRect (fst ?Tb))" using False by (simp add: labels_fields lg)
    moreover have "legendRect (fst ?Tb) = legendRect a" "layoutEngine (fst ?Tb) = layoutEngine a"
      "layoutData (fst ?Tb) = layoutData a"
      by (simp_all add: labels_fields lg ld eng)
    ultimately show ?thesis by (simp add: Let_def)
  qed
  finally show ?thesis .
qed

lemma activate_legend_cong:
  assumes ld: "layoutData b = layoutData a" and eng: "layoutEngine b = layoutEngine a"
    and a: "activate_legend plot options a rect = Inr sra"
  shows "\<exists>srb. activate_legend plot options b rect = Inr srb \<and> snd srb = snd sra
           \<and> legendRect (fst srb) =
               (if IgnoreLegend \<notin> options
                   \<and> (case legend plot of None \<Rightarrow> False | Some l \<Rightarrow> \<not> legendIsEmpty l)
                then legendRect (fst sra) else legendRect b)"
    and "IgnoreLegend \<notin> options \<and> (case legend plot of None \<Rightarrow> False | Some l \<Rightarrow> \<not> legendIsEmpty l)
         \<or> legendRect (fst sra) = legendRect a"
  using a unfolding activate_legend_def bindF_def Let_def spacing_def ld eng
  by (auto split: if_splits sum.splits)

lemma activate_again:
  assumes res: "update plot rect options s = Some (Inr s')"
  shows "activate plot rect options s' = Some (Inr s')"
proof -
  let ?ld = "QwtPlotLayoutData_init plot rect (layoutData s)"
  let ?s1 = "(freshRects plot s)\<lparr>layoutData := ?ld\<rparr>"
  from res obtain sr d where
    l: "activate_legend plot options ?s1 rect = Inr sr"
    and d: "layoutDimensions (layoutEngine ?s1) options ?ld (snd sr) = Some (Inr d)"
    and r: "activate_rects options d sr = Inr s'"
    unfolding update_fresh activate_def Let_def
    by (auto simp add: freshRects_def split: option.splits sum.splits)
  note lf = activate_legend_fields [OF l]
  have F: "layoutData s' = ?ld" "layoutEngine s' = layoutEngine ?s1"
    using activate_rects_fields [OF r] by (simp_all add: lf)
  have same: "s'\<lparr>layoutData := QwtPlotLayoutData_init plot rect (layoutData s')\<rparr> = s'"
    by (simp add: F init_idem)
  have ld: "layoutData s' = layoutData ?s1" using F by simp
  from activate_legend_cong(1) [OF ld F(2) l] obtain sr' where
    l': "activate_legend plot options s' rect = Inr sr'"
    and snd: "snd sr' = snd sr"
    and lg': "legendRect (fst sr') =
               (if IgnoreLegend \<notin> options
                   \<and> (case legend plot of None \<Rightarrow> False | Some l \<Rightarrow> \<not> legendIsEmpty l)
                then legendRect (fst sr) else legendRect s')"
    by blast
  note lf' = activate_legend_fields [OF l']
  have r2: "activate_rects options d (fst sr, snd sr) = Inr s'" using r by simp
  have fresh: "scaleRects (fst sr) p = replicate (length (dimAxisVector d p)) QRectF0" for p
    using layoutDimensions_fit [OF d, of p]
    by (simp add: lf freshRects_def numAxes_init)
  have lg: "legendRect (fst sr') = legendRect (fst sr)"
  proof (cases "IgnoreLegend \<notin> options \<and> (case legend plot of None \<Rightarrow> False | Some l \<Rightarrow> \<not> legendIsEmpty l)")
    case True
    then show ?thesis using lg' by simp
  next
    case False
    then have a: "legendRect (fst sr) = legendRect ?s1"
      using activate_legend_cong(2) [OF refl refl l] by blast
    then have e: "isEmpty (legendRect (fst sr))"
      by (simp add: freshRects_def isEmpty_def QRectF0_def)
    from r2 have "legendRect s' = legendRect (fst sr)"
      by (rule activate_rects_split) (use e in simp)
    then show ?thesis
      using False lg' by simp
  qed
  have "activate_rects options d (fst sr', snd sr) = Inr s'"
    by (rule activate_rects_again [OF r2 fresh])
       (simp_all add: lf lf' F lg)
  then have "activate_rects options d sr' = Inr s'"
    using snd by (metis prod.collapse)
  moreover have "layoutDimensions (layoutEngine s') options (layoutData s') (snd sr') = Some (Inr d)"
    using d by (simp add: snd F)
  ultimately show ?thesis
    unfolding activate_def Let_def same by (simp add: l')
qed

text \<open>
  Claim C7. The layout pass \<open>update\<close> is idempotent: when a pass over a plot, a plot
  rectangle and options returns a state, a second pass over the same plot, rectangle and
  options from that state returns the same state, and so the same rectangles of title,
  footer, legend, canvas and axes. This also holds when the second pass is \<open>activate\<close>
  alone, which does not reset the rectangles first.
\<close>

theorem update_idempotent:
  assumes "update plot rect options s = Some (Inr s')"
  shows "update plot rect options s' = Some (Inr s')
       \<and> activate plot rect options s' = Some (Inr s')"
  using update_twice [OF assms] activate_again [OF assms] by simp

theorem update_idempotent_witness:
  "\<exists>s'. update examplePlot examplePlotRect {} exampleLayout = Some (Inr s')
     \<and> update examplePlot examplePlotRect {} s' = Some (Inr s')
     \<and> activate examplePlot examplePlotRect {} s' = Some (Inr s')
     \<and> canvasRect s' = \<lparr>xp = 35, yp = 27, rw = 325, rh = 213\<rparr>"
proof -
  from example_update obtain s' where
    u: "update examplePlot examplePlotRect {} exampleLayout = Some (Inr s')"
    and c: "canvasRect s' = \<lparr>xp = 35, yp = 27, rw = 325, rh = 213\<rparr>"
    by blast
  from update_idempotent [OF u] u c show ?thesis by blast
qed


end
